theory Spec2Isabelle
  imports Complex_Main "HOL-Library.Sublist" "HOL-Library.Multiset"
begin

section \<open>Python strings\<close>

text \<open>
  A Python \<open>str\<close> is a sequence of code points. It is modelled as a \<open>char list\<close>, one
  \<open>char\<close> per code point, which covers the code points below 256. On these,
  \<open>str.lower\<close> maps \<open>A\<close>..\<open>Z\<close> and the Latin-1 capitals (0xC0..0xDE except 0xD7) to the
  code point 32 higher (bit 5 set) and leaves every other code point alone, and
  \<open>str.isspace\<close> holds of 0x09..0x0D, 0x1C..0x20, 0x85 and 0xA0.
\<close>

definition lower_char :: "char \<Rightarrow> char" where
  "lower_char c =
     (let n = (of_char c :: nat)
      in if (65 \<le> n \<and> n \<le> 90) \<or> (192 \<le> n \<and> n \<le> 222 \<and> n \<noteq> 215)
         then Char (digit0 c) (digit1 c) (digit2 c) (digit3 c) (digit4 c) True (digit6 c) (digit7 c)
         else c)"

definition lower :: "string \<Rightarrow> string" where
  "lower s = map lower_char s"

definition is_space :: "char \<Rightarrow> bool" where
  "is_space c =
     (let n = (of_char c :: nat)
      in (9 \<le> n \<and> n \<le> 13) \<or> (28 \<le> n \<and> n \<le> 32) \<or> n = 133 \<or> n = 160)"

text \<open>\<open>s.split()\<close>: the maximal runs of non-whitespace, in order; never an empty word.\<close>

fun split_acc :: "string \<Rightarrow> string \<Rightarrow> string list" where
  "split_acc cur [] = (if cur = [] then [] else [cur])"
| "split_acc cur (c # cs) =
     (if is_space c then (if cur = [] then split_acc [] cs else cur # split_acc [] cs)
      else split_acc (cur @ [c]) cs)"

definition split :: "string \<Rightarrow> string list" where
  "split s = split_acc [] s"

text \<open>\<open>s.split(sep)\<close> for a one-character separator: empty pieces are kept.\<close>

fun split_on :: "char \<Rightarrow> string \<Rightarrow> string list" where
  "split_on sep [] = [[]]"
| "split_on sep (c # cs) =
     (if c = sep then [] # split_on sep cs
      else (case split_on sep cs of
              [] \<Rightarrow> [[c]]
            | w # ws \<Rightarrow> (c # w) # ws))"

definition strip :: "string \<Rightarrow> string" where
  "strip s = rev (dropWhile is_space (rev (dropWhile is_space s)))"

text \<open>
  \<open>s.replace(old, new)\<close>: the occurrences of \<open>old\<close> are found from the left and do not
  overlap. With an empty \<open>old\<close>, Python puts \<open>new\<close> before every character and at the end.
\<close>

function replace :: "string \<Rightarrow> string \<Rightarrow> string \<Rightarrow> string" where
  "replace old new [] = (if old = [] then new else [])"
| "replace old new (c # cs) =
     (if old = [] then new @ c # replace old new cs
      else if prefix old (c # cs) then new @ replace old new (drop (length old) (c # cs))
      else c # replace old new cs)"
  by pat_completeness auto
termination
  by (relation "measure (\<lambda>(old, new, s). length s)") (auto simp: neq_Nil_conv)

section \<open>The random source\<close>

text \<open>
  The calls of Python's \<open>random\<close> module read a shared generator. It is modelled as the
  sequence of numbers it will yield, passed in and returned advanced. \<open>random.random()\<close>
  is a multiple of \<open>2 ^ -53\<close> in \<open>[0, 1)\<close>; \<open>random.choice\<close> picks a position of its
  sequence (every call in the engine passes a non-empty literal); \<open>random.sample xs k\<close>
  with \<open>k \<le> len(xs)\<close> picks \<open>k\<close> different positions, in the order drawn.
\<close>

type_synonym rng = "nat \<Rightarrow> nat"

definition draw :: "rng \<Rightarrow> nat \<times> rng" where
  "draw r = (r 0, \<lambda>i. r (Suc i))"

definition random_random :: "rng \<Rightarrow> real \<times> rng" where
  "random_random r = (real (fst (draw r) mod 2 ^ 53) / 2 ^ 53, snd (draw r))"

definition random_choice :: "'a list \<Rightarrow> rng \<Rightarrow> 'a \<times> rng" where
  "random_choice xs r = (xs ! (fst (draw r) mod length xs), snd (draw r))"

fun random_sample :: "'a list \<Rightarrow> nat \<Rightarrow> rng \<Rightarrow> 'a list \<times> rng" where
  "random_sample xs 0 r = ([], r)"
| "random_sample xs (Suc k) r =
     (let i = fst (draw r) mod length xs;
          (ys, r') = random_sample (take i xs @ drop (Suc i) xs) k (snd (draw r))
      in (xs ! i # ys, r'))"

section \<open>Data model\<close>

datatype error = IndexError | TypeError | AttributeError | ValueError

text \<open>
  An NPC record of the profile document. \<open>name\<close>, \<open>class\<close> and \<open>alignment\<close> are read with
  \<open>profile[key]\<close>; the other three with \<open>profile.get(key, default)\<close>, so an absent one
  is its default: the empty mapping or the empty string. Mappings keep their order.
\<close>

record npc_profile =
  name :: string
  "class" :: string
  alignment :: string
  personality_traits :: "(string \<times> real) list"
  backstory :: string
  interaction_style :: "(string \<times> string) list"

text \<open>One entry of \<open>interactions\<close>: the keys \<open>action\<close>, \<open>context\<close>, \<open>sentiment\<close>, \<open>timestamp\<close>.\<close>

record interaction =
  action_text :: string
  context_label :: string
  sentiment_score :: int
  timestamp :: string

record relationship =
  affinity :: int
  trust :: real
  interactions :: "interaction list"

text \<open>
  The engine object. \<open>npc_profiles\<close> is the \<open>npcs\<close> sequence of the loaded document;
  \<open>player_history\<close> and \<open>conversation_context\<close> are created empty and never used again.
\<close>

record engine =
  npc_profiles :: "npc_profile list"
  player_history :: "string \<rightharpoonup> string"
  relationship_states :: "string \<rightharpoonup> relationship"
  conversation_context :: "string \<rightharpoonup> string"

definition init :: "npc_profile list \<Rightarrow> engine" where
  "init profiles =
     \<lparr>npc_profiles = profiles, player_history = Map.empty,
      relationship_states = Map.empty, conversation_context = Map.empty\<rparr>"

section \<open>Relationship ledger\<close>

definition positive_keywords :: "string list" where
  "positive_keywords = [''help'', ''save'', ''protect'', ''agree'', ''gift'', ''compliment'']"

definition negative_keywords :: "string list" where
  "negative_keywords = [''attack'', ''steal'', ''lie'', ''threaten'', ''insult'', ''refuse'']"

text \<open>\<open>word in action_lower\<close> is \<^const>\<open>sublist\<close>; the two loops are folds over the lists.\<close>

definition analyze_player_action :: "string \<Rightarrow> int" where
  "analyze_player_action player_action =
     (let action_lower = lower player_action;
          score = fold (\<lambda>word score. if sublist word action_lower then score + 2 else score)
                    positive_keywords 0;
          score = fold (\<lambda>word score. if sublist word action_lower then score - 2 else score)
                    negative_keywords score
      in max (- 10) (min 10 score))"

text \<open>
  \<open>trust\<close> becomes a Python float at the first update. Every value it takes is a multiple
  of one half below 128, on which float addition and comparison are exact, so it is
  modelled as a real number.
\<close>

definition update_player_relationship :: "string \<Rightarrow> string \<Rightarrow> string \<Rightarrow> engine \<Rightarrow> engine" where
  "update_player_relationship npc_name player_action ctx e =
     (let r = (case relationship_states e npc_name of
                 None \<Rightarrow> \<lparr>affinity = 50, trust = 50, interactions = []\<rparr>
               | Some r \<Rightarrow> r);
          sentiment = analyze_player_action player_action;
          r = r\<lparr>affinity := affinity r + sentiment\<rparr>;
          r = r\<lparr>affinity := max 0 (min 100 (affinity r))\<rparr>;
          trust_change = real_of_int sentiment * 0.5;
          r = r\<lparr>trust := trust r + trust_change\<rparr>;
          r = r\<lparr>trust := max 0 (min 100 (trust r))\<rparr>;
          r = r\<lparr>interactions := interactions r @
                 [\<lparr>action_text = player_action, context_label = ctx,
                   sentiment_score = sentiment, timestamp = ''simulated_timestamp''\<rparr>]\<rparr>
      in e\<lparr>relationship_states := (relationship_states e)(npc_name \<mapsto> r)\<rparr>)"

text \<open>A sequence of calls \<open>(npc_name, player_action, context)\<close>, made one after the other.\<close>

fun update_all :: "(string \<times> string \<times> string) list \<Rightarrow> engine \<Rightarrow> engine" where
  "update_all [] e = e"
| "update_all ((npc_name, player_action, ctx) # calls) e =
     update_all calls (update_player_relationship npc_name player_action ctx e)"

definition interactions_of :: "engine \<Rightarrow> string \<Rightarrow> interaction list" where
  "interactions_of e npc_name =
     (case relationship_states e npc_name of None \<Rightarrow> [] | Some r \<Rightarrow> interactions r)"

section \<open>Template catalog\<close>

record mood_modifier =
  word_choices :: "string list"
  sentence_endings :: "string list"
  speech_patterns :: string

text \<open>
  The values of the inner dictionaries of \<open>prompt_templates\<close>: a template string under
  the three contexts, a dictionary of modifiers under the key \<open>mood_modifiers\<close>.
\<close>

datatype entry = Template string | Modifier mood_modifier

definition mood_modifiers :: "(string \<times> mood_modifier) list" where
  "mood_modifiers =
     [(''happy'',
         \<lparr>word_choices = [''wonderful'', ''excellent'', ''fantastic'', ''amazing''],
          sentence_endings = [''!'', ''! That's great!'', ''! How delightful!''],
          speech_patterns = ''expansive and enthusiastic''\<rparr>),
      (''sad'',
         \<lparr>word_choices = [''unfortunately'', ''sadly'', ''regrettably'', ''with sorrow''],
          sentence_endings = [''...'', ''. *sigh*'', ''. Such is life...''],
          speech_patterns = ''slow and melancholic''\<rparr>),
      (''angry'',
         \<lparr>word_choices = [''irritating'', ''absurd'', ''unacceptable'', ''outrageous''],
          sentence_endings = [''.'', ''. Understood?'', ''!''],
          speech_patterns = ''short and intense''\<rparr>),
      (''curious'',
         \<lparr>word_choices = [''interesting'', ''fascinating'', ''intriguing'', ''curious''],
          sentence_endings = [''?'', ''... don't you think?'', ''... I wonder why.''],
          speech_patterns = ''questioning and reflective''\<rparr>)]"

definition prompt_templates :: "(string \<times> (string \<times> entry) list) list" where
  "prompt_templates =
     [(''greeting'',
         [(''formal'', Template ''Greetings, traveler. I am {npc_name}, {npc_title}. {custom_intro}''),
          (''friendly'', Template ''Hello! Great to see you here! I'm {npc_name}. {custom_intro}''),
          (''cautious'', Template ''Hmm... {hesitation} I'm {npc_name}. {custom_intro}''),
          (''excited'', Template ''Wow! A new face! I'm {npc_name}! {custom_intro}'')]),
      (''quest_offer'',
         [(''urgent'', Template ''I need your help immediately. {quest_description} Time is running out!''),
          (''mysterious'', Template
             ''I have an... interesting proposal. {quest_description} There's more to this than meets the eye.''),
          (''casual'', Template
             ''If you have time, could you help me with something? {quest_description} No rush.''),
          (''challenging'', Template
             ''I'm looking for someone with your skills. {quest_description} Few could manage this.'')]),
      (''response_to_player_choice'',
         [(''approval'', Template ''Excellent choice! {approval_response}''),
          (''disappointment'', Template ''{disappointment_response} I expected more from you.''),
          (''surprise'', Template ''Interesting... {surprise_response} I didn't expect that.''),
          (''neutral'', Template ''I understand your decision. {neutral_response}'')]),
      (''mood_modifiers'', map (\<lambda>(mood, m). (mood, Modifier m)) mood_modifiers)]"

section \<open>Dialogue generation\<close>

text \<open>\<open>xs[i]\<close> for an index that is not negative.\<close>

definition index :: "'a list \<Rightarrow> nat \<Rightarrow> error + 'a" where
  "index xs i = (if i < length xs then Inr (xs ! i) else Inl IndexError)"

text \<open>
  The optional \<open>player_history\<close> argument (here \<open>history\<close>, since the engine has an
  attribute of that name) is only tested for truth: \<open>None\<close> and the empty dictionary are
  false. \<open>player_choice\<close> is passed along and never read.
\<close>

type_synonym history_dict = "(string \<times> string) list"

definition determine_interaction_style ::
    "npc_profile \<Rightarrow> string \<Rightarrow> history_dict option \<Rightarrow> error + string" where
  "determine_interaction_style npc_profile ctx history =
     (if ctx = ''greeting'' then
        (case index (split (alignment npc_profile)) 1 of
           Inl err \<Rightarrow> Inl err
         | Inr word \<Rightarrow> Inr (if word = ''Good'' then ''friendly'' else ''cautious''))
      else if ctx = ''quest_offer'' then
        (if sublist ''urgency'' (lower ctx) then Inr ''urgent''
         else if class npc_profile \<in> set [''Techno-Mage Scientist'', ''Sentient Alien Pet'']
           then Inr ''mysterious''
         else Inr ''casual'')
      else if ctx = ''response_to_player_choice'' then
        (if (case history of None \<Rightarrow> True | Some h \<Rightarrow> h = []) then Inr ''neutral''
         else Inr ''approval'')
      else Inr ''friendly'')"

definition select_template :: "string \<Rightarrow> string \<Rightarrow> string option \<Rightarrow> entry" where
  "select_template ctx style player_choice =
     (case map_of prompt_templates ctx of
        None \<Rightarrow> Template ''Hello, I'm {npc_name}. How can I help?''
      | Some styles \<Rightarrow>
          (case map_of styles style of
             None \<Rightarrow> Template ''Hello, I'm {npc_name}. How can I help?''
           | Some template \<Rightarrow> template))"

text \<open>\<open>max(items, key=value)\<close>: the first item among those of the greatest value.\<close>

fun max_item :: "string \<times> real \<Rightarrow> (string \<times> real) list \<Rightarrow> string \<times> real" where
  "max_item best [] = best"
| "max_item best (x # xs) = (if snd best < snd x then max_item x xs else max_item best xs)"

text \<open>
  The float literals \<open>0.7\<close>, \<open>0.6\<close> and \<open>0.4\<close> are these multiples of \<open>2 ^ -53\<close>.
\<close>

definition float_0_7 :: real where "float_0_7 = 6305039478318694 / 2 ^ 53"
definition float_0_6 :: real where "float_0_6 = 5404319552844595 / 2 ^ 53"
definition float_0_4 :: real where "float_0_4 = 3602879701896397 / 2 ^ 53"

definition moods :: "string list" where
  "moods = [''happy'', ''sad'', ''angry'', ''curious'']"

definition mostly :: "string \<Rightarrow> real \<Rightarrow> rng \<Rightarrow> string \<times> rng" where
  "mostly mood p r =
     (if fst (random_random r) < p then (mood, snd (random_random r))
      else random_choice moods (snd (random_random r)))"

definition determine_mood ::
    "npc_profile \<Rightarrow> history_dict option \<Rightarrow> string option \<Rightarrow> rng \<Rightarrow> string \<times> rng" where
  "determine_mood npc_profile history player_choice r =
     (case personality_traits npc_profile of
        [] \<Rightarrow> mostly ''curious'' float_0_4 r
      | t # ts \<Rightarrow>
          (let max_trait = max_item t ts
           in if fst max_trait \<in> set [''optimism'', ''enthusiasm'', ''curiosity'']
                then mostly ''happy'' float_0_7 r
              else if fst max_trait \<in> set [''wisdom'', ''empathy'', ''compassion'']
                then mostly ''curious'' float_0_6 r
              else if fst max_trait \<in> set [''determination'', ''courage'']
                then random_choice moods r
              else mostly ''curious'' float_0_4 r))"

definition apply_mood_modifiers :: "entry \<Rightarrow> string \<Rightarrow> error + entry" where
  "apply_mood_modifiers template mood =
     (case map_of mood_modifiers mood of
        None \<Rightarrow> Inr template
      | Some mood_data \<Rightarrow>
          (case template of
             Template t \<Rightarrow> Inr (Template (''['' @ speech_patterns mood_data @ ''] '' @ t))
           | Modifier m \<Rightarrow> Inl TypeError))"

text \<open>\<open>str.split(sep)\<close> always yields at least one piece, so \<open>[0]\<close> is its head.\<close>

definition generate_intro_snippet :: "npc_profile \<Rightarrow> string" where
  "generate_intro_snippet npc_profile =
     (if backstory npc_profile \<noteq> [] then
        (let sentences = split_on CHR ''.'' (backstory npc_profile)
         in if 2 < length sentences then strip (sentences ! 1) @ ''.''
            else hd (split_on CHR ''.'' (backstory npc_profile)) @ ''.'')
      else ''I have a story to tell.'')"

definition replacements :: "npc_profile \<Rightarrow> string \<Rightarrow> (string \<times> string) list" where
  "replacements npc_profile hesitation =
     [(''{npc_name}'', name npc_profile),
      (''{npc_title}'', class npc_profile),
      (''{custom_intro}'',
         ''I am '' @ alignment npc_profile @ '' and '' @ generate_intro_snippet npc_profile),
      (''{hesitation}'', hesitation),
      (''{quest_description}'', ''[Quest description would be dynamically generated]''),
      (''{approval_response}'', ''This shows your character.''),
      (''{disappointment_response}'', ''This wasn't what I expected.''),
      (''{surprise_response}'', ''You continue to surprise me.''),
      (''{neutral_response}'', ''Let's see where this leads us.'')]"

definition hesitations :: "string list" where
  "hesitations = [''Who approaches?'', ''You seem... different.'', ''Hmm...'']"

definition fill_template ::
    "entry \<Rightarrow> npc_profile \<Rightarrow> string \<Rightarrow> string option \<Rightarrow> rng \<Rightarrow> (error + string) \<times> rng" where
  "fill_template template npc_profile ctx player_choice r =
     (let (hesitation, r') = random_choice hesitations r
      in case template of
           Modifier m \<Rightarrow> (Inl AttributeError, r')
         | Template t \<Rightarrow>
             (Inr (fold (\<lambda>(key, val) filled. replace key val filled)
                     (replacements npc_profile hesitation) t), r'))"

text \<open>
  The public methods are given the engine object \<open>self\<close> and can assign to its
  attributes, so each is modelled with the engine as an argument and yields, next to
  what it returns or raises, the engine as it leaves it and the random source as it
  leaves it. \<open>generate_dialogue\<close> reads \<open>self.npc_profiles\<close> and has no assignment to an
  attribute on any of its paths. The private helpers it calls read their arguments (and
  two of them the template catalog) and assign to no attribute either; they are the
  functions above.
\<close>

definition generate_dialogue ::
    "engine \<Rightarrow> string \<Rightarrow> string \<Rightarrow> history_dict option \<Rightarrow> string option \<Rightarrow> rng
       \<Rightarrow> (error + string) \<times> engine \<times> rng" where
  "generate_dialogue e npc_name ctx history player_choice r =
     (case find (\<lambda>npc. name npc = npc_name) (npc_profiles e) of
        None \<Rightarrow>
          (Inr (''[NPC '' @ [CHR 0x27] @ npc_name @ [CHR 0x27] @ '' not found in system]''), e, r)
      | Some npc_profile \<Rightarrow>
          (case determine_interaction_style npc_profile ctx history of
             Inl err \<Rightarrow> (Inl err, e, r)
           | Inr style \<Rightarrow>
               (let template = select_template ctx style player_choice;
                    (mood, r') = determine_mood npc_profile history player_choice r
                in case apply_mood_modifiers template mood of
                     Inl err \<Rightarrow> (Inl err, e, r')
                   | Inr modified_template \<Rightarrow>
                       (let (line, r'') =
                              fill_template modified_template npc_profile ctx player_choice r'
                        in (line, e, r'')))))"

section \<open>Response options\<close>

definition get_player_nickname :: "int \<Rightarrow> rng \<Rightarrow> string \<times> rng" where
  "get_player_nickname affinity_level r =
     (if 90 < affinity_level then
        random_choice [''my dear friend'', ''partner'', ''adventure companion''] r
      else if 70 < affinity_level then random_choice [''friend'', ''partner'', ''adventurer''] r
      else (''traveler'', r))"

definition generate_suggestion :: "npc_profile \<Rightarrow> string \<Rightarrow> bool \<Rightarrow> string" where
  "generate_suggestion npc_profile ctx positive =
     (if sublist ''Explorer'' (class npc_profile) then
        (if positive then ''explore that less-traveled path'' else ''follow the safer route this time'')
      else if sublist ''Scientist'' (class npc_profile) then
        (if positive then ''analyze the patterns before deciding''
         else ''consider the unknown variables'')
      else if sublist ''Guardian'' (class npc_profile) then
        (if positive then ''protect what's most valuable first''
         else ''retreat and reassess the situation'')
      else (if positive then ''follow your intuition'' else ''think more about the consequences''))"

definition generate_cautious_response :: "npc_profile \<Rightarrow> error + string" where
  "generate_cautious_response npc_profile =
     (let words = split (alignment npc_profile)
      in case index words 0 of
           Inl err \<Rightarrow> Inl err
         | Inr word \<Rightarrow>
             Inr (if word = ''Lawful'' then ''We need to consider the rules and traditions here''
                  else if word = ''Chaotic'' then ''I don't much trust rigid plans in this situation''
                  else ''I see pros and cons on both sides''))"

definition generate_honest_opinion :: "npc_profile \<Rightarrow> string \<Rightarrow> string" where
  "generate_honest_opinion npc_profile ctx =
     (case personality_traits npc_profile of
        [] \<Rightarrow> ''I think we should follow what seems most aligned with our goals''
      | t # ts \<Rightarrow>
          (let trait_name = fst (max_item t ts)
           in if trait_name \<in> set [''optimism'', ''enthusiasm'', ''curiosity'']
                then ''I believe we should try the bolder approach''
              else if trait_name \<in> set [''wisdom'', ''patience'']
                then ''I suggest we observe more before acting''
              else if trait_name \<in> set [''determination'', ''courage'']
                then ''we should face this head-on, without hesitation''
              else ''I think we should follow what seems most aligned with our goals''))"

definition generate_factual_response :: "npc_profile \<Rightarrow> string \<Rightarrow> string" where
  "generate_factual_response npc_profile ctx =
     (let npc_class = class npc_profile
      in if sublist ''Explorer'' npc_class then
           ''I've seen similar situations in my travels, and usually it's best to map all possible routes''
         else if sublist ''Scientist'' npc_class then
           ''the data suggests there are multiple variables to consider, especially the time factor''
         else if sublist ''Guardian'' npc_class then
           ''the natural balance suggests we should intervene minimally, but with precision''
         else ''based on what we know, we have several viable options to consider'')"

definition perspectives :: "(string \<times> string) list" where
  "perspectives =
     [(''Star Explorer'',
         ''each journey reveals new possibilities we couldn't imagine before setting out''),
      (''Techno-Mage Scientist'',
         ''the intersection between science and the unexplained often reveals the most elegant solutions''),
      (''Guardian of the Floating Forests'',
         ''all parts of a system are connected, and each action creates ripples through the whole''),
      (''Sentient Alien Pet'',
         ''communication goes far beyond words; sometimes the unspoken is more important''),
      (''Hero Apprentice'',
         ''the stories we hear shape the stories we live, and each of us is writing our own chapter'')]"

definition generate_class_perspective :: "string \<Rightarrow> string" where
  "generate_class_perspective npc_class =
     (case find (\<lambda>(class_key, perspective). sublist class_key npc_class) perspectives of
        Some (class_key, perspective) \<Rightarrow> perspective
      | None \<Rightarrow> ''each situation is unique and deserves careful consideration'')"

text \<open>One branch of the cue chain: the key is in the dictionary and the cue is in the context.\<close>

definition cue :: "(string \<times> string) list \<Rightarrow> string \<Rightarrow> bool \<Rightarrow> string option" where
  "cue style key hit = (case map_of style key of None \<Rightarrow> None | Some v \<Rightarrow> if hit then Some v else None)"

definition generate_personality_based_response :: "npc_profile \<Rightarrow> string \<Rightarrow> string" where
  "generate_personality_based_response npc_profile ctx =
     (let style = interaction_style npc_profile
      in case cue style ''under_stress'' (sublist ''stress'' (lower ctx)) of
           Some v \<Rightarrow> ''[Under pressure] '' @ v
         | None \<Rightarrow>
        (case cue style ''teaching_moments'' (sublist ''learn'' (lower ctx)) of
           Some v \<Rightarrow> ''[Teaching] '' @ v
         | None \<Rightarrow>
        (case cue style ''conflict_resolution''
                (sublist ''conflict'' (lower ctx) \<or> sublist ''disagree'' (lower ctx)) of
           Some v \<Rightarrow> ''[Resolving conflict] '' @ v
         | None \<Rightarrow>
        (case cue style ''first_meeting'' (sublist ''new'' (lower ctx)) of
           Some v \<Rightarrow> ''[First meeting] '' @ v
         | None \<Rightarrow>
             ''As a '' @ class npc_profile @ '', my perspective is that ''
               @ generate_class_perspective (class npc_profile)))))"

text \<open>
  The candidate pool of \<open>generate_response_options\<close>, in the order the options are
  appended. The local \<open>tone\<close> is computed and never read.
\<close>

definition candidate_options ::
    "npc_profile \<Rightarrow> string \<Rightarrow> int \<Rightarrow> real \<Rightarrow> rng \<Rightarrow> (error + string list) \<times> rng" where
  "candidate_options npc_profile ctx affinity_level trust_level r =
     (let (options, r') =
            (if 60 < affinity_level then
               (let (nickname, r') = get_player_nickname affinity_level r
                in ([''I completely understand, '' @ nickname @ ''. ''
                       @ ''Considering our history together, I suggest ''
                       @ generate_suggestion npc_profile ctx True @ ''.''], r'))
             else ([], r))
      in case (if affinity_level < 40 then
                 (case generate_cautious_response npc_profile of
                    Inl err \<Rightarrow> Inl err
                  | Inr cautious \<Rightarrow>
                      Inr (options @ [''Hmm. '' @ cautious @ ''. '' @ ''Perhaps we should ''
                                       @ generate_suggestion npc_profile ctx False @ ''.'']))
               else Inr options) of
           Inl err \<Rightarrow> (Inl err, r')
         | Inr options \<Rightarrow>
             (let options =
                    (if 70 < trust_level then
                       options @ [''I trust you to make the right decision here. ''
                                    @ ''If you want my honest opinion, ''
                                    @ generate_honest_opinion npc_profile ctx @ ''.'']
                     else options);
                  options = options @ [''Considering the facts, ''
                                         @ generate_factual_response npc_profile ctx @ ''.''];
                  options = options @ [generate_personality_based_response npc_profile ctx]
              in (Inr options, r')))"

definition fillers :: "string list" where
  "fillers = [''next steps'', ''other options'', ''alternatives'']"

text \<open>The loop \<open>while len(options) < num_options\<close>.\<close>

function fill_options :: "string list \<Rightarrow> int \<Rightarrow> rng \<Rightarrow> string list \<times> rng" where
  "fill_options options num_options r =
     (if int (length options) < num_options then
        (let (filler, r') = random_choice fillers r
         in fill_options
              (options @ [''Interesting perspective. Let's consider '' @ filler @ ''.''])
              num_options r')
      else (options, r))"
  by pat_completeness auto
termination
  by (relation "measure (\<lambda>(options, num_options, r). nat (num_options - int (length options)))")
    auto

declare fill_options.simps [simp del]

text \<open>
  \<open>random.sample\<close> raises \<open>ValueError\<close> for a negative count; \<open>[x] * n\<close> is empty for a
  negative \<open>n\<close>. The ledger is read with \<open>self.relationship_states.get(npc_name, default)\<close>,
  which stores nothing for a missing key; the method has no assignment to an attribute,
  and like \<open>generate_dialogue\<close> it yields the engine as it leaves it.
\<close>

definition generate_response_options ::
    "engine \<Rightarrow> string \<Rightarrow> string \<Rightarrow> string \<Rightarrow> int \<Rightarrow> rng
       \<Rightarrow> (error + string list) \<times> engine \<times> rng" where
  "generate_response_options e npc_name ctx player_statement num_options r =
     (case find (\<lambda>npc. name npc = npc_name) (npc_profiles e) of
        None \<Rightarrow>
          (Inr (replicate (nat num_options)
                  (''[NPC '' @ [CHR 0x27] @ npc_name @ [CHR 0x27] @ '' not found]'')), e, r)
      | Some npc_profile \<Rightarrow>
          (let (affinity_level, trust_level) =
                 (case relationship_states e npc_name of
                    None \<Rightarrow> (50, 50)
                  | Some relationship \<Rightarrow> (affinity relationship, trust relationship));
               tone = (if 70 < affinity_level then ''friendly''
                       else if 30 < affinity_level then ''neutral'' else ''cautious'')
           in case candidate_options npc_profile ctx affinity_level trust_level r of
                (Inl err, r') \<Rightarrow> (Inl err, e, r')
              | (Inr options, r') \<Rightarrow>
                  if num_options < int (length options) then
                    (if num_options < 0 then (Inl ValueError, e, r')
                     else (let (sample, r'') = random_sample options (nat num_options) r'
                           in (Inr sample, e, r'')))
                  else (let (options, r'') = fill_options options num_options r'
                        in (Inr options, e, r''))))"

section \<open>The public operations as calls on the engine\<close>

text \<open>
  A call of a public method yields what the method returns (or the exception it
  raises), the engine the method leaves and the random source it leaves. The engine
  after a query is the one the query's own body yields.
  \<open>update_player_relationship\<close> returns \<open>None\<close> and draws nothing.
\<close>

datatype call =
    Generate_dialogue string string "history_dict option" "string option"
  | Update_player_relationship string string string
  | Generate_response_options string string string int

datatype outcome = Returned_text string | Returned_options "string list" | Returned_none | Raised error

fun perform :: "call \<Rightarrow> engine \<times> rng \<Rightarrow> outcome \<times> engine \<times> rng" where
  "perform (Generate_dialogue npc_name ctx history player_choice) (e, r) =
     (case generate_dialogue e npc_name ctx history player_choice r of
        (Inl err, e', r') \<Rightarrow> (Raised err, e', r')
      | (Inr line, e', r') \<Rightarrow> (Returned_text line, e', r'))"
| "perform (Update_player_relationship npc_name player_action ctx) (e, r) =
     (Returned_none, update_player_relationship npc_name player_action ctx e, r)"
| "perform (Generate_response_options npc_name ctx player_statement num_options) (e, r) =
     (case generate_response_options e npc_name ctx player_statement num_options r of
        (Inl err, e', r') \<Rightarrow> (Raised err, e', r')
      | (Inr options, e', r') \<Rightarrow> (Returned_options options, e', r'))"

fun perform_all :: "call list \<Rightarrow> engine \<times> rng \<Rightarrow> engine \<times> rng" where
  "perform_all [] s = s"
| "perform_all (c # cs) s = perform_all cs (snd (perform c s))"

text \<open>The update calls among a sequence of calls, as arguments for \<^const>\<open>update_all\<close>.\<close>

fun updates_in :: "call list \<Rightarrow> (string \<times> string \<times> string) list" where
  "updates_in [] = []"
| "updates_in (Update_player_relationship npc_name player_action ctx # cs) =
     (npc_name, player_action, ctx) # updates_in cs"
| "updates_in (c # cs) = updates_in cs"

text \<open>
  The words of the specification, for comparison with the code: a keyword occurs in a
  text ignoring case when some contiguous piece of the text equals it up to case;
  \<open>matched\<close> counts the different keywords of a list that occur so.
\<close>

definition occurs_ignoring_case :: "string \<Rightarrow> string \<Rightarrow> bool" where
  "occurs_ignoring_case w t = (\<exists>s \<in> set (sublists t). lower s = lower w)"

definition matched :: "string list \<Rightarrow> string \<Rightarrow> nat" where
  "matched keywords t = card {w \<in> set keywords. occurs_ignoring_case w t}"

text \<open>The ledger invariant, and the affinity an NPC has with or without an entry.\<close>

definition within_bounds :: "relationship \<Rightarrow> bool" where
  "within_bounds r \<longleftrightarrow> 0 \<le> affinity r \<and> affinity r \<le> 100 \<and> 0 \<le> trust r \<and> trust r \<le> 100"

definition all_within_bounds :: "engine \<Rightarrow> bool" where
  "all_within_bounds e \<longleftrightarrow> (\<forall>n r. relationship_states e n = Some r \<longrightarrow> within_bounds r)"

definition affinity_of :: "engine \<Rightarrow> string \<Rightarrow> int" where
  "affinity_of e n = (case relationship_states e n of None \<Rightarrow> 50 | Some r \<Rightarrow> affinity r)"

text \<open>A profile to evaluate the operations on.\<close>

definition mira :: npc_profile where
  "mira = \<lparr>name = ''Mira Lumina'', class = ''Hero Apprentice'', alignment = ''Neutral Good'',
            personality_traits = [(''enthusiasm'', 9 / 10), (''courage'', 7 / 10)],
            backstory = ''Mira grew up on tales of heroes. She left home at sixteen. Now she trains.'',
            interaction_style = [(''first_meeting'', ''Oh! Are you an adventurer too?'')]\<rparr>"

text \<open>The two not-found markers, as \<open>generate_dialogue\<close> and \<open>generate_response_options\<close> build them.\<close>

definition not_found_in_system :: "string \<Rightarrow> string" where
  "not_found_in_system npc_name = ''[NPC '' @ [CHR 0x27] @ npc_name @ [CHR 0x27] @ '' not found in system]''"

definition not_found :: "string \<Rightarrow> string" where
  "not_found npc_name = ''[NPC '' @ [CHR 0x27] @ npc_name @ [CHR 0x27] @ '' not found]''"

text \<open>The trust an NPC has with or without an entry, and the three filler sentences.\<close>

definition trust_of :: "engine \<Rightarrow> string \<Rightarrow> real" where
  "trust_of e n = (case relationship_states e n of None \<Rightarrow> 50 | Some r \<Rightarrow> trust r)"

definition filler_sentences :: "string list" where
  "filler_sentences = map (\<lambda>filler. ''Interesting perspective. Let's consider '' @ filler @ ''.'') fillers"

text \<open>A random source that yields the same number at every draw.\<close>

definition constant_source :: "nat \<Rightarrow> rng" where
  "constant_source k = (\<lambda>i. k)"

text \<open>A profile whose alignment has no word.\<close>

definition drifter :: npc_profile where
  "drifter = \<lparr>name = ''Drifter'', class = ''Star Explorer'', alignment = [],
               personality_traits = [], backstory = [], interaction_style = []\<rparr>"

text \<open>The engine after three hostile actions towards that NPC: its affinity is 38.\<close>

definition hostile :: engine where
  "hostile =
     update_all
       [(''Drifter'', ''attack and steal'', ''quest''), (''Drifter'', ''attack and steal'', ''quest''),
        (''Drifter'', ''attack and steal'', ''quest'')]
       (init [drifter])"

text \<open>
  The renderer of the specification: the template of a context and style, with the mood
  prefix, filled. These are the last three steps of \<open>generate_dialogue\<close>.
\<close>

definition render ::
    "string \<Rightarrow> string \<Rightarrow> string \<Rightarrow> npc_profile \<Rightarrow> string option \<Rightarrow> rng \<Rightarrow> (error + string) \<times> rng" where
  "render ctx style mood npc_profile player_choice r =
     (case apply_mood_modifiers (select_template ctx style player_choice) mood of
        Inl err \<Rightarrow> (Inl err, r)
      | Inr modified_template \<Rightarrow> fill_template modified_template npc_profile ctx player_choice r)"

text \<open>The placeholder tokens, and the texts that contain no opening brace.\<close>

definition placeholders :: "string list" where
  "placeholders =
     [''{npc_name}'', ''{npc_title}'', ''{custom_intro}'', ''{hesitation}'', ''{quest_description}'',
      ''{approval_response}'', ''{disappointment_response}'', ''{surprise_response}'',
      ''{neutral_response}'']"

definition brace_free :: "string \<Rightarrow> bool" where
  "brace_free s \<longleftrightarrow> CHR ''{'' \<notin> set s"

text \<open>The template strings of the catalog.\<close>

definition template_texts :: "string list" where
  "template_texts =
     concat (map (\<lambda>(ctx, styles). concat (map (\<lambda>(style, entry).
        (case entry of Template t \<Rightarrow> [t] | Modifier m \<Rightarrow> [])) styles)) prompt_templates)"

text \<open>A profile whose backstory is the text of a placeholder.\<close>

definition echo :: npc_profile where
  "echo = \<lparr>name = ''Echo'', class = ''Star Explorer'', alignment = ''Neutral Good'',
            personality_traits = [], backstory = ''{npc_name}'', interaction_style = []\<rparr>"

section \<open>Properties of the sentiment scorer\<close>

lemma analyze_player_action_range:
  "- 10 \<le> analyze_player_action a \<and> analyze_player_action a \<le> 10"
  by (simp add: analyze_player_action_def Let_def)

lemma occurs_ignoring_case_iff:
  "occurs_ignoring_case w t \<longleftrightarrow> sublist (lower w) (lower t)"
proof
  assume "occurs_ignoring_case w t"
  then obtain s where "sublist s t" "lower s = lower w"
    by (auto simp: occurs_ignoring_case_def)
  then show "sublist (lower w) (lower t)"
    using map_mono_sublist [of s t lower_char] by (simp add: lower_def)
next
  assume "sublist (lower w) (lower t)"
  then obtain s where "sublist s t" "lower w = map lower_char s"
    unfolding lower_def using sublist_map_rightE by blast
  then show "occurs_ignoring_case w t"
    by (auto simp: occurs_ignoring_case_def lower_def)
qed

lemma lower_keywords:
  "\<forall>w \<in> set (positive_keywords @ negative_keywords). lower w = w"
  by (simp add: positive_keywords_def negative_keywords_def lower_def lower_char_def)

lemma distinct_keywords: "distinct (positive_keywords @ negative_keywords)"
  by (simp add: positive_keywords_def negative_keywords_def)

lemma fold_add_count:
  "fold (\<lambda>w s. if P w then s + d else s) ws (s0 :: int) = s0 + d * int (length (filter P ws))"
  by (induction ws arbitrary: s0) (simp_all add: algebra_simps)

lemma fold_sub_count:
  "fold (\<lambda>w s. if P w then s - d else s) ws (s0 :: int) = s0 - d * int (length (filter P ws))"
  by (induction ws arbitrary: s0) (simp_all add: algebra_simps)

lemma card_filter_distinct:
  "distinct ws \<Longrightarrow> card {w \<in> set ws. P w} = length (filter P ws)"
  using distinct_card [of "filter P ws"] by simp

lemma matched_eq:
  assumes "distinct ws" "\<forall>w \<in> set ws. lower w = w"
  shows "matched ws a = length (filter (\<lambda>w. sublist w (lower a)) ws)"
proof -
  have "filter (\<lambda>w. occurs_ignoring_case w a) ws = filter (\<lambda>w. sublist w (lower a)) ws"
    using assms(2) by (intro filter_cong) (auto simp: occurs_ignoring_case_iff)
  then show ?thesis
    using card_filter_distinct [OF assms(1), of "\<lambda>w. occurs_ignoring_case w a"]
    by (simp add: matched_def)
qed

lemma analyze_player_action_count:
  "analyze_player_action a =
     max (- 10) (min 10 (2 * int (matched positive_keywords a) - 2 * int (matched negative_keywords a)))"
proof -
  have p: "matched positive_keywords a = length (filter (\<lambda>w. sublist w (lower a)) positive_keywords)"
    using distinct_keywords lower_keywords by (intro matched_eq) auto
  have n: "matched negative_keywords a = length (filter (\<lambda>w. sublist w (lower a)) negative_keywords)"
    using distinct_keywords lower_keywords by (intro matched_eq) auto
  show ?thesis
    unfolding p n analyze_player_action_def Let_def fold_add_count fold_sub_count by simp
qed

text \<open>
  Claim C2. There are six positive and six negative keywords. The score of an action
  text is twice the number of positive keywords that occur in it ignoring case, minus
  twice the number of negative keywords that so occur, clamped to \<open>[-10, 10]\<close>; it
  always lies in \<open>[-10, 10]\<close>; and a text in which exactly \<open>k\<close> positive keywords and no
  negative keyword occur scores \<open>min 10 (2 * k)\<close>.
\<close>

theorem sentiment_score_formula:
  "length positive_keywords = 6 \<and> length negative_keywords = 6
   \<and> analyze_player_action a =
     max (- 10) (min 10 (2 * int (matched positive_keywords a) - 2 * int (matched negative_keywords a)))
   \<and> - 10 \<le> analyze_player_action a \<and> analyze_player_action a \<le> 10
   \<and> (matched positive_keywords a = k \<and> matched negative_keywords a = 0
        \<longrightarrow> analyze_player_action a = min 10 (2 * int k))"
  using analyze_player_action_count [of a]
  by (auto simp: positive_keywords_def negative_keywords_def)

lemma matched_code:
  "matched ws a = card (set (filter (\<lambda>w. sublist (lower w) (lower a)) ws))"
  by (simp add: matched_def occurs_ignoring_case_iff)

theorem sentiment_score_formula_witness:
  "matched positive_keywords ''I will HELP and Protect you'' = 2
   \<and> matched negative_keywords ''I will HELP and Protect you'' = 0
   \<and> analyze_player_action ''I will HELP and Protect you'' = 4"
proof -
  have p: "matched positive_keywords ''I will HELP and Protect you'' = 2"
    by (simp add: matched_code positive_keywords_def lower_def lower_char_def sublist_code)
  have n: "matched negative_keywords ''I will HELP and Protect you'' = 0"
    by (simp add: matched_code negative_keywords_def lower_def lower_char_def sublist_code)
  show ?thesis
    using sentiment_score_formula [of "''I will HELP and Protect you''" 2] p n by simp
qed

section \<open>Properties of the relationship ledger\<close>

lemma update_entry:
  "relationship_states (update_player_relationship n a c e) n =
     Some (let r = (case relationship_states e n of
                      None \<Rightarrow> \<lparr>affinity = 50, trust = 50, interactions = []\<rparr> | Some r \<Rightarrow> r);
               s = analyze_player_action a
           in \<lparr>affinity = max 0 (min 100 (affinity r + s)),
               trust = max 0 (min 100 (trust r + real_of_int s * 0.5)),
               interactions = interactions r @
                 [\<lparr>action_text = a, context_label = c, sentiment_score = s,
                   timestamp = ''simulated_timestamp''\<rparr>]\<rparr>)"
  by (simp add: update_player_relationship_def Let_def)

lemma update_other:
  "m \<noteq> n \<Longrightarrow> relationship_states (update_player_relationship n a c e) m = relationship_states e m"
  by (simp add: update_player_relationship_def Let_def)

lemma update_frame:
  "npc_profiles (update_player_relationship n a c e) = npc_profiles e"
  by (simp add: update_player_relationship_def Let_def)

lemma update_within_bounds:
  "relationship_states (update_player_relationship n a c e) n = Some r \<Longrightarrow> within_bounds r"
  by (auto simp: update_entry within_bounds_def Let_def)

lemma update_preserves_bounds:
  assumes "all_within_bounds e"
  shows "all_within_bounds (update_player_relationship n a c e)"
  unfolding all_within_bounds_def
proof (intro allI impI)
  fix m r
  assume h: "relationship_states (update_player_relationship n a c e) m = Some r"
  show "within_bounds r"
  proof (cases "m = n")
    case True
    with h show ?thesis using update_within_bounds by blast
  next
    case False
    with h assms show ?thesis by (simp add: update_other all_within_bounds_def)
  qed
qed

lemma update_all_preserves_bounds:
  "all_within_bounds e \<Longrightarrow> all_within_bounds (update_all calls e)"
  by (induction calls arbitrary: e) (auto simp: update_preserves_bounds)

lemma init_within_bounds: "all_within_bounds (init profiles)"
  by (simp add: all_within_bounds_def init_def)

lemma update_interactions:
  "interactions_of (update_player_relationship n a c e) m =
     (if m = n
      then interactions_of e n @
             [\<lparr>action_text = a, context_label = c, sentiment_score = analyze_player_action a,
               timestamp = ''simulated_timestamp''\<rparr>]
      else interactions_of e m)"
  by (auto simp: interactions_of_def update_entry update_other Let_def split: option.splits)

lemma update_all_interactions_prefix:
  "prefix (interactions_of e m) (interactions_of (update_all calls e) m)"
proof (induction calls arbitrary: e)
  case Nil
  show ?case by simp
next
  case (Cons call calls)
  obtain n a c where call: "call = (n, a, c)" by (cases call)
  have "prefix (interactions_of e m) (interactions_of (update_player_relationship n a c e) m)"
    by (simp add: update_interactions)
  also have "prefix \<dots> (interactions_of (update_all (call # calls) e) m)"
    using Cons.IH by (simp add: call)
  finally show ?case .
qed

lemma update_affinity_of:
  "affinity_of (update_player_relationship n a c e) n =
     max 0 (min 100 (affinity_of e n + analyze_player_action a))"
  by (simp add: affinity_of_def update_entry Let_def split: option.splits)

lemma repeated_full_score:
  assumes "\<forall>(n, a, c) \<in> set calls. n = npc \<and> analyze_player_action a = 10"
    and "0 \<le> affinity_of e npc" "affinity_of e npc \<le> 100"
  shows "affinity_of (update_all calls e) npc = min 100 (affinity_of e npc + 10 * int (length calls))"
  using assms
proof (induction calls arbitrary: e)
  case Nil
  then show ?case by (simp)
next
  case (Cons call calls)
  obtain n a c where call: "call = (n, a, c)" by (cases call)
  from Cons.prems call have n: "n = npc" and s: "analyze_player_action a = 10" by auto
  let ?e = "update_player_relationship npc a c e"
  have step: "affinity_of ?e npc = min 100 (affinity_of e npc + 10)"
    using Cons.prems(2) by (simp add: update_affinity_of s)
  have "affinity_of (update_all calls ?e) npc = min 100 (affinity_of ?e npc + 10 * int (length calls))"
    using Cons.prems step by (intro Cons.IH) auto
  then show ?case
    using Cons.prems(2) by (simp add: call n step)
qed

lemma update_all_keeps_entry:
  "relationship_states e n \<noteq> None \<Longrightarrow> relationship_states (update_all calls e) n \<noteq> None"
proof (induction calls arbitrary: e)
  case Nil
  then show ?case by simp
next
  case (Cons call calls)
  obtain m a c where call: "call = (m, a, c)" by (cases call)
  have "relationship_states (update_player_relationship m a c e) n \<noteq> None"
    using Cons.prems by (cases "n = m") (simp_all add: update_entry update_other)
  then show ?case using Cons.IH by (simp add: call)
qed

lemma update_all_creates_entry:
  assumes "calls \<noteq> []" "\<forall>(n, a, c) \<in> set calls. n = npc \<and> P a"
  shows "relationship_states (update_all calls e) npc \<noteq> None"
proof -
  from assms obtain a c rest where "calls = (npc, a, c) # rest"
    by (cases calls) auto
  then show ?thesis
    using update_all_keeps_entry [of "update_player_relationship npc a c e" npc rest]
    by (simp add: update_entry)
qed

text \<open>
  Claim C1. After any sequence of \<open>update_player_relationship\<close> calls on a new engine,
  every entry of the ledger has its affinity and its trust in \<open>[0, 100]\<close>. Fifty updates
  of one NPC that each score +10, from an affinity of 50 (no entry yet, or an entry at
  50), leave its affinity at exactly 100. One update appends exactly one record to the
  interactions of the NPC it names and leaves those of every other NPC alone, so over
  any sequence of updates the earlier interactions stay, in order, as a prefix.
\<close>

theorem relationship_bounds_and_growth:
  "(\<forall>npc r. relationship_states (update_all calls (init profiles)) npc = Some r \<longrightarrow>
       0 \<le> affinity r \<and> affinity r \<le> 100 \<and> 0 \<le> trust r \<and> trust r \<le> 100)
   \<and> (length calls50 = 50 \<and> (\<forall>(n, a, c) \<in> set calls50. n = npc50 \<and> analyze_player_action a = 10)
        \<and> affinity_of e50 npc50 = 50
      \<longrightarrow> (\<exists>r. relationship_states (update_all calls50 e50) npc50 = Some r \<and> affinity r = 100))
   \<and> interactions_of (update_player_relationship n a c e) n =
        interactions_of e n @
          [\<lparr>action_text = a, context_label = c, sentiment_score = analyze_player_action a,
            timestamp = ''simulated_timestamp''\<rparr>]
   \<and> (\<forall>m. m \<noteq> n \<longrightarrow> interactions_of (update_player_relationship n a c e) m = interactions_of e m)
   \<and> (\<forall>m. prefix (interactions_of e m) (interactions_of (update_all calls e) m))"
proof (intro conjI)
  show "\<forall>npc r. relationship_states (update_all calls (init profiles)) npc = Some r \<longrightarrow>
       0 \<le> affinity r \<and> affinity r \<le> 100 \<and> 0 \<le> trust r \<and> trust r \<le> 100"
    using update_all_preserves_bounds [OF init_within_bounds, of calls profiles]
    by (simp add: all_within_bounds_def within_bounds_def)
next
  show "length calls50 = 50 \<and> (\<forall>(n, a, c) \<in> set calls50. n = npc50 \<and> analyze_player_action a = 10)
        \<and> affinity_of e50 npc50 = 50
      \<longrightarrow> (\<exists>r. relationship_states (update_all calls50 e50) npc50 = Some r \<and> affinity r = 100)"
  proof (intro impI, elim conjE)
    assume len: "length calls50 = 50"
      and all: "\<forall>(n, a, c) \<in> set calls50. n = npc50 \<and> analyze_player_action a = 10"
      and base: "affinity_of e50 npc50 = 50"
    have "affinity_of (update_all calls50 e50) npc50 = 100"
      using repeated_full_score [OF all, of e50] base len by simp
    moreover have "relationship_states (update_all calls50 e50) npc50 \<noteq> None"
    proof (rule update_all_creates_entry [OF _ all])
      show "calls50 \<noteq> []" using len by auto
    qed
    ultimately show "\<exists>r. relationship_states (update_all calls50 e50) npc50 = Some r \<and> affinity r = 100"
      by (auto simp: affinity_of_def)
  qed
next
  show "interactions_of (update_player_relationship n a c e) n =
        interactions_of e n @
          [\<lparr>action_text = a, context_label = c, sentiment_score = analyze_player_action a,
            timestamp = ''simulated_timestamp''\<rparr>]"
    by (simp add: update_interactions)
next
  show "\<forall>m. m \<noteq> n \<longrightarrow> interactions_of (update_player_relationship n a c e) m = interactions_of e m"
    by (simp add: update_interactions)
next
  show "\<forall>m. prefix (interactions_of e m) (interactions_of (update_all calls e) m)"
    by (simp add: update_all_interactions_prefix)
qed

lemma full_score_example: "analyze_player_action ''Help, save, protect, agree, gift'' = 10"
  by code_simp

theorem relationship_bounds_and_growth_witness:
  "length (replicate 50 (''Blip'', ''Help, save, protect, agree, gift'', ''quest'')) = 50
   \<and> analyze_player_action ''Help, save, protect, agree, gift'' = 10
   \<and> affinity_of (init []) ''Blip'' = 50
   \<and> (\<exists>r. relationship_states
            (update_all (replicate 50 (''Blip'', ''Help, save, protect, agree, gift'', ''quest'')) (init []))
            ''Blip'' = Some r \<and> affinity r = 100)
   \<and> (\<exists>r. relationship_states (update_all [(''Blip'', ''steal'', ''quest'')] (init [])) ''Blip'' = Some r
          \<and> 0 \<le> affinity r \<and> affinity r \<le> 100 \<and> 0 \<le> trust r \<and> trust r \<le> 100)
   \<and> interactions_of (update_all [(''Blip'', ''steal'', ''quest'')] (init [])) ''Blip'' =
        [\<lparr>action_text = ''steal'', context_label = ''quest'', sentiment_score = - 2,
          timestamp = ''simulated_timestamp''\<rparr>]"
proof -
  let ?calls = "replicate 50 (''Blip'', ''Help, save, protect, agree, gift'', ''quest'')"
  let ?e = "update_all [(''Blip'', ''steal'', ''quest'')] (init [])"
  have h1: "length ?calls = 50" by simp
  have h2: "\<forall>(n, a, c) \<in> set ?calls. n = ''Blip'' \<and> analyze_player_action a = 10"
    by (simp add: full_score_example)
  have h3: "affinity_of (init []) ''Blip'' = 50"
    by (simp add: affinity_of_def init_def)
  have s: "analyze_player_action ''steal'' = - 2"
    by code_simp
  have i: "interactions_of (init []) ''Blip'' = []"
    by (simp add: interactions_of_def init_def)
  have ex: "\<exists>r. relationship_states ?e ''Blip'' = Some r"
    by (simp add: update_entry)
  note t = relationship_bounds_and_growth
    [of "[(''Blip'', ''steal'', ''quest'')]" "[]" ?calls "''Blip''" "init []" "''Blip''" "''steal''" "''quest''" "init []"]
  from t h1 h2 h3 have "\<exists>r. relationship_states (update_all ?calls (init [])) ''Blip'' = Some r \<and> affinity r = 100"
    by blast
  moreover from t ex have "\<exists>r. relationship_states ?e ''Blip'' = Some r
          \<and> 0 \<le> affinity r \<and> affinity r \<le> 100 \<and> 0 \<le> trust r \<and> trust r \<le> 100"
    by blast
  moreover from t have "interactions_of (update_player_relationship ''Blip'' ''steal'' ''quest'' (init [])) ''Blip'' =
        interactions_of (init []) ''Blip'' @
          [\<lparr>action_text = ''steal'', context_label = ''quest'', sentiment_score = analyze_player_action ''steal'',
            timestamp = ''simulated_timestamp''\<rparr>]"
    by blast
  ultimately show ?thesis using h1 h3 s i full_score_example by simp
qed

text \<open>
  Claim C3. An update for an NPC that has no entry yet starts from affinity 50, trust 50
  and no interactions, and applies its delta on top: the new entry has affinity 50 plus
  the score, trust 50 plus half the score, and the one record of this call. For
  \<open>Dr. Elian Thaumatec\<close> and the action \<open>I will help and protect you\<close> (score 4) that
  is affinity 54, trust 52 and one interaction.
\<close>

theorem first_update_from_baseline:
  "relationship_states e npc = None \<longrightarrow>
     relationship_states (update_player_relationship npc a c e) npc =
       Some \<lparr>affinity = 50 + analyze_player_action a,
             trust = 50 + real_of_int (analyze_player_action a) / 2,
             interactions = [\<lparr>action_text = a, context_label = c,
                              sentiment_score = analyze_player_action a,
                              timestamp = ''simulated_timestamp''\<rparr>]\<rparr>
     \<and> (npc = ''Dr. Elian Thaumatec'' \<and> a = ''I will help and protect you'' \<longrightarrow>
          (\<exists>r. relationship_states (update_player_relationship npc a c e) npc = Some r
             \<and> affinity r = 54 \<and> trust r = 52 \<and> length (interactions r) = 1))"
proof
  assume none: "relationship_states e npc = None"
  have range: "- 10 \<le> analyze_player_action a \<and> analyze_player_action a \<le> 10"
    by (rule analyze_player_action_range)
  have s: "analyze_player_action ''I will help and protect you'' = 4"
    by code_simp
  have first: "relationship_states (update_player_relationship npc a c e) npc =
       Some \<lparr>affinity = 50 + analyze_player_action a,
             trust = 50 + real_of_int (analyze_player_action a) / 2,
             interactions = [\<lparr>action_text = a, context_label = c,
                              sentiment_score = analyze_player_action a,
                              timestamp = ''simulated_timestamp''\<rparr>]\<rparr>"
    using range by (simp add: update_entry none Let_def)
  show "relationship_states (update_player_relationship npc a c e) npc =
       Some \<lparr>affinity = 50 + analyze_player_action a,
             trust = 50 + real_of_int (analyze_player_action a) / 2,
             interactions = [\<lparr>action_text = a, context_label = c,
                              sentiment_score = analyze_player_action a,
                              timestamp = ''simulated_timestamp''\<rparr>]\<rparr>
     \<and> (npc = ''Dr. Elian Thaumatec'' \<and> a = ''I will help and protect you'' \<longrightarrow>
          (\<exists>r. relationship_states (update_player_relationship npc a c e) npc = Some r
             \<and> affinity r = 54 \<and> trust r = 52 \<and> length (interactions r) = 1))"
    using first s by auto
qed

theorem first_update_from_baseline_witness:
  "relationship_states (init []) ''Dr. Elian Thaumatec'' = None
   \<and> (\<exists>r. relationship_states
            (update_player_relationship ''Dr. Elian Thaumatec'' ''I will help and protect you''
               ''greeting'' (init [])) ''Dr. Elian Thaumatec'' = Some r
          \<and> affinity r = 54 \<and> trust r = 52 \<and> length (interactions r) = 1)"
proof -
  have h: "relationship_states (init []) ''Dr. Elian Thaumatec'' = None"
    by (simp add: init_def)
  show ?thesis
    using first_update_from_baseline
      [of "init []" "''Dr. Elian Thaumatec''" "''I will help and protect you''" "''greeting''"] h
    by blast
qed

section \<open>Properties of the queries\<close>

lemma find_absent:
  "npc_name \<notin> name ` set profiles \<Longrightarrow> find (\<lambda>npc. name npc = npc_name) profiles = None"
  by (auto simp: find_None_iff)

lemma sublist_middle: "sublist xs (a @ b @ xs @ c)"
  by (metis append.assoc sublist_appendI)

text \<open>
  Claim C5. For an NPC name that no profile of the store has, \<open>generate_dialogue\<close>
  returns (and does not raise) a line that contains the name and the words
  \<open>not found\<close>, and \<open>generate_response_options\<close> returns \<open>n\<close> copies of one not-found
  marker. Neither draws from the random source, and the options are the same whatever
  the ledger holds.
\<close>

theorem unknown_npc_sentinel:
  "npc_name \<notin> name ` set (npc_profiles e) \<longrightarrow>
     generate_dialogue e npc_name ctx history player_choice r = (Inr (not_found_in_system npc_name), e, r)
     \<and> sublist npc_name (not_found_in_system npc_name)
     \<and> sublist ''not found'' (not_found_in_system npc_name)
     \<and> generate_response_options e npc_name ctx player_statement n r
         = (Inr (replicate (nat n) (not_found npc_name)), e, r)
     \<and> sublist ''not found'' (not_found npc_name)
     \<and> generate_response_options (e\<lparr>relationship_states := ledger\<rparr>) npc_name ctx player_statement n r'
         = (Inr (replicate (nat n) (not_found npc_name)), e\<lparr>relationship_states := ledger\<rparr>, r')"
proof
  assume absent: "npc_name \<notin> name ` set (npc_profiles e)"
  have none: "find (\<lambda>npc. name npc = npc_name) (npc_profiles e) = None"
    using absent by (rule find_absent)
  have d: "generate_dialogue e npc_name ctx history player_choice r = (Inr (not_found_in_system npc_name), e, r)"
    by (simp add: generate_dialogue_def none not_found_in_system_def)
  have o: "generate_response_options e npc_name ctx player_statement n r
         = (Inr (replicate (nat n) (not_found npc_name)), e, r)"
    by (simp add: generate_response_options_def none not_found_def)
  have o': "generate_response_options (e\<lparr>relationship_states := ledger\<rparr>) npc_name ctx player_statement n r'
         = (Inr (replicate (nat n) (not_found npc_name)), e\<lparr>relationship_states := ledger\<rparr>, r')"
    by (simp add: generate_response_options_def none not_found_def)
  have s1: "sublist npc_name (not_found_in_system npc_name)"
    unfolding not_found_in_system_def by (rule sublist_middle)
  have s2: "sublist ''not found'' (not_found_in_system npc_name)"
  proof -
    have "not_found_in_system npc_name = (''[NPC '' @ [CHR 0x27] @ npc_name @ [CHR 0x27] @ '' '') @ ''not found'' @ '' in system]''"
      by (simp add: not_found_in_system_def)
    then show ?thesis by (metis sublist_appendI)
  qed
  have s3: "sublist ''not found'' (not_found npc_name)"
  proof -
    have "not_found npc_name = (''[NPC '' @ [CHR 0x27] @ npc_name @ [CHR 0x27] @ '' '') @ ''not found'' @ '']''"
      by (simp add: not_found_def)
    then show ?thesis by (metis sublist_appendI)
  qed
  from d o o' s1 s2 s3 show "generate_dialogue e npc_name ctx history player_choice r = (Inr (not_found_in_system npc_name), e, r)
     \<and> sublist npc_name (not_found_in_system npc_name)
     \<and> sublist ''not found'' (not_found_in_system npc_name)
     \<and> generate_response_options e npc_name ctx player_statement n r
         = (Inr (replicate (nat n) (not_found npc_name)), e, r)
     \<and> sublist ''not found'' (not_found npc_name)
     \<and> generate_response_options (e\<lparr>relationship_states := ledger\<rparr>) npc_name ctx player_statement n r'
         = (Inr (replicate (nat n) (not_found npc_name)), e\<lparr>relationship_states := ledger\<rparr>, r')"
    by simp
qed

theorem unknown_npc_sentinel_witness:
  "''Ghost'' \<notin> name ` set (npc_profiles (init []))
   \<and> fst (generate_dialogue (init []) ''Ghost'' ''greeting'' None None (\<lambda>i. 0))
       = Inr ''[NPC 'Ghost' not found in system]''
   \<and> fst (generate_response_options (init []) ''Ghost'' ''greeting'' ''Hello'' 3 (\<lambda>i. 0))
       = Inr [''[NPC 'Ghost' not found]'', ''[NPC 'Ghost' not found]'', ''[NPC 'Ghost' not found]'']"
proof -
  have h: "''Ghost'' \<notin> name ` set (npc_profiles (init []))"
    by (simp add: init_def)
  have three: "replicate 3 x = [x, x, x]" for x :: string
    by (simp add: numeral_3_eq_3)
  show ?thesis
    using unknown_npc_sentinel [of "''Ghost''" "init []" "''greeting''" None None "\<lambda>i. 0" "''Hello''" 3 Map.empty "\<lambda>i. 0"] h
    by (simp add: not_found_in_system_def not_found_def three)
qed

text \<open>
  Claim C6. For a profile whose alignment is two words and the context \<open>greeting\<close>, the
  style is \<open>friendly\<close> exactly when the second word is \<open>Good\<close> and \<open>cautious\<close> for every
  other second word, whatever the history argument is.
\<close>

theorem greeting_style_by_second_word:
  "split (alignment npc_profile) = [first_word, second_word] \<longrightarrow>
     determine_interaction_style npc_profile ''greeting'' history
       = Inr (if second_word = ''Good'' then ''friendly'' else ''cautious'')"
  by (simp add: determine_interaction_style_def index_def)

lemma split_neutral_good: "split ''Neutral Good'' = [''Neutral'', ''Good'']"
  by code_simp

lemma split_chaotic_evil: "split ''Chaotic Evil'' = [''Chaotic'', ''Evil'']"
  by code_simp

theorem greeting_style_by_second_word_witness:
  "split (alignment \<lparr>name = ''Mira Lumina'', class = ''Hero Apprentice'', alignment = ''Neutral Good'',
       personality_traits = [], backstory = [], interaction_style = []\<rparr>) = [''Neutral'', ''Good'']
   \<and> determine_interaction_style \<lparr>name = ''Mira Lumina'', class = ''Hero Apprentice'', alignment = ''Neutral Good'',
       personality_traits = [], backstory = [], interaction_style = []\<rparr> ''greeting'' None = Inr ''friendly''
   \<and> split (alignment \<lparr>name = ''Vex'', class = ''Rogue'', alignment = ''Chaotic Evil'',
       personality_traits = [], backstory = [], interaction_style = []\<rparr>) = [''Chaotic'', ''Evil'']
   \<and> determine_interaction_style \<lparr>name = ''Vex'', class = ''Rogue'', alignment = ''Chaotic Evil'',
       personality_traits = [], backstory = [], interaction_style = []\<rparr> ''greeting'' (Some [(''met'', ''yes'')]) = Inr ''cautious''"
  using greeting_style_by_second_word [of "\<lparr>name = ''Mira Lumina'', class = ''Hero Apprentice'', alignment = ''Neutral Good'',
       personality_traits = [], backstory = [], interaction_style = []\<rparr>" "''Neutral''" "''Good''" None]
    greeting_style_by_second_word [of "\<lparr>name = ''Vex'', class = ''Rogue'', alignment = ''Chaotic Evil'',
       personality_traits = [], backstory = [], interaction_style = []\<rparr>" "''Chaotic''" "''Evil''" "Some [(''met'', ''yes'')]"]
  by (simp add: split_neutral_good split_chaotic_evil)

text \<open>
  Claim C7. For the context \<open>quest_offer\<close> the style is \<open>urgent\<close> if \<open>urgency\<close> occurs in
  the context label, otherwise \<open>mysterious\<close> if the class is \<open>Techno-Mage Scientist\<close> or
  \<open>Sentient Alien Pet\<close>, otherwise \<open>casual\<close>. The label \<open>quest_offer\<close> does not contain
  \<open>urgency\<close>, so the style is never \<open>urgent\<close>.
\<close>

theorem quest_offer_style:
  "determine_interaction_style npc_profile ''quest_offer'' history
     = Inr (if sublist ''urgency'' ''quest_offer'' then ''urgent''
            else if class npc_profile \<in> {''Techno-Mage Scientist'', ''Sentient Alien Pet''} then ''mysterious''
            else ''casual'')
   \<and> determine_interaction_style npc_profile ''quest_offer'' history \<noteq> Inr ''urgent''"
proof -
  have l: "lower ''quest_offer'' = ''quest_offer''" by code_simp
  have u: "\<not> sublist ''urgency'' ''quest_offer''" by code_simp
  show ?thesis
    by (simp add: determine_interaction_style_def l u)
qed

theorem quest_offer_style_witness:
  "determine_interaction_style mira ''quest_offer'' None = Inr ''casual''
   \<and> determine_interaction_style (mira\<lparr>class := ''Sentient Alien Pet''\<rparr>) ''quest_offer'' None
       = Inr ''mysterious''"
proof -
  have u: "\<not> sublist ''urgency'' ''quest_offer''" by code_simp
  show ?thesis
    using quest_offer_style [of mira None]
      quest_offer_style [of "mira\<lparr>class := ''Sentient Alien Pet''\<rparr>" None] u
    by (simp add: mira_def)
qed

lemma apply_mood_modifiers_Template:
  "\<exists>t'. apply_mood_modifiers (Template t) mood = Inr (Template t')"
  by (simp add: apply_mood_modifiers_def split: option.split)

lemma fill_template_Template:
  "\<exists>line. fst (fill_template (Template t) npc_profile ctx player_choice r) = Inr line"
  by (simp add: fill_template_def split: prod.split)

lemma select_template_greeting:
  "style = ''friendly'' \<or> style = ''cautious'' \<Longrightarrow>
     \<exists>t. select_template ''greeting'' style player_choice = Template t"
  by (auto simp: select_template_def prompt_templates_def)

lemma greeting_style_total:
  assumes "2 \<le> length (split (alignment npc_profile))"
  shows "determine_interaction_style npc_profile ''greeting'' history
           = Inr (if split (alignment npc_profile) ! 1 = ''Good'' then ''friendly'' else ''cautious'')"
  using assms by (simp add: determine_interaction_style_def index_def)

lemma greeting_dialogue_total:
  assumes two: "2 \<le> length (split (alignment npc_profile))"
    and found: "find (\<lambda>npc. name npc = npc_name) (npc_profiles e) = Some npc_profile"
  shows "\<exists>line. fst (generate_dialogue e npc_name ''greeting'' history player_choice r) = Inr line"
proof -
  define style where "style = (if split (alignment npc_profile) ! 1 = ''Good'' then ''friendly'' else ''cautious'')"
  have st: "determine_interaction_style npc_profile ''greeting'' history = Inr style"
    using greeting_style_total [OF two] by (simp add: style_def)
  have "style = ''friendly'' \<or> style = ''cautious''"
    by (simp add: style_def)
  then obtain t where t: "select_template ''greeting'' style player_choice = Template t"
    using select_template_greeting by blast
  obtain mood r' where m: "determine_mood npc_profile history player_choice r = (mood, r')"
    by (cases "determine_mood npc_profile history player_choice r")
  obtain t' where t': "apply_mood_modifiers (Template t) mood = Inr (Template t')"
    using apply_mood_modifiers_Template by blast
  show ?thesis
    using fill_template_Template [of t' npc_profile "''greeting''" player_choice r']
    by (simp add: generate_dialogue_def found st t m t' case_prod_beta)
qed

text \<open>
  Claim C10. For a profile whose alignment splits into at least two words, the read of
  the second word is in bounds and the greeting style selection returns a style; for
  such a profile found in the store, \<open>generate_dialogue\<close> with the context \<open>greeting\<close>
  returns a line. With fewer than two words the selection raises \<open>IndexError\<close>.
\<close>

theorem greeting_style_in_bounds:
  "(2 \<le> length (split (alignment npc_profile)) \<longrightarrow>
      index (split (alignment npc_profile)) 1 = Inr (split (alignment npc_profile) ! 1)
      \<and> (\<exists>style. determine_interaction_style npc_profile ''greeting'' history = Inr style)
      \<and> (find (\<lambda>npc. name npc = npc_name) (npc_profiles e) = Some npc_profile \<longrightarrow>
           (\<exists>line. fst (generate_dialogue e npc_name ''greeting'' history player_choice r) = Inr line)))
   \<and> (length (split (alignment npc_profile)) < 2 \<longrightarrow>
        determine_interaction_style npc_profile ''greeting'' history = Inl IndexError)"
proof (intro conjI impI)
  assume "2 \<le> length (split (alignment npc_profile))"
  then show "index (split (alignment npc_profile)) 1 = Inr (split (alignment npc_profile) ! 1)"
    by (simp add: index_def)
next
  assume "2 \<le> length (split (alignment npc_profile))"
  then show "\<exists>style. determine_interaction_style npc_profile ''greeting'' history = Inr style"
    using greeting_style_total by blast
next
  assume "2 \<le> length (split (alignment npc_profile))"
    and "find (\<lambda>npc. name npc = npc_name) (npc_profiles e) = Some npc_profile"
  then show "\<exists>line. fst (generate_dialogue e npc_name ''greeting'' history player_choice r) = Inr line"
    by (rule greeting_dialogue_total)
next
  assume "length (split (alignment npc_profile)) < 2"
  then show "determine_interaction_style npc_profile ''greeting'' history = Inl IndexError"
    by (simp add: determine_interaction_style_def index_def)
qed

theorem greeting_style_in_bounds_witness:
  "2 \<le> length (split (alignment mira))
   \<and> find (\<lambda>npc. name npc = ''Mira Lumina'') (npc_profiles (init [mira])) = Some mira
   \<and> (\<exists>style. determine_interaction_style mira ''greeting'' None = Inr style)
   \<and> (\<exists>line. fst (generate_dialogue (init [mira]) ''Mira Lumina'' ''greeting'' None None (\<lambda>i. 0)) = Inr line)
   \<and> length (split (alignment (mira\<lparr>alignment := ''Neutral''\<rparr>))) < 2
   \<and> determine_interaction_style (mira\<lparr>alignment := ''Neutral''\<rparr>) ''greeting'' None = Inl IndexError"
proof -
  have s: "split (alignment mira) = [''Neutral'', ''Good'']"
    by (simp add: mira_def split_neutral_good)
  have s1: "split ''Neutral'' = [''Neutral'']" by code_simp
  have h1: "2 \<le> length (split (alignment mira))" by (simp add: s)
  have h2: "find (\<lambda>npc. name npc = ''Mira Lumina'') (npc_profiles (init [mira])) = Some mira"
    by (simp add: init_def mira_def)
  have h3: "length (split (alignment (mira\<lparr>alignment := ''Neutral''\<rparr>))) < 2"
    by (simp add: s1)
  from greeting_style_in_bounds [of mira None "''Mira Lumina''" "init [mira]" None "\<lambda>i. 0"] h1 h2
  have a: "(\<exists>style. determine_interaction_style mira ''greeting'' None = Inr style)
   \<and> (\<exists>line. fst (generate_dialogue (init [mira]) ''Mira Lumina'' ''greeting'' None None (\<lambda>i. 0)) = Inr line)"
    by blast
  from greeting_style_in_bounds [of "mira\<lparr>alignment := ''Neutral''\<rparr>" None "''Mira Lumina''" "init [mira]" None "\<lambda>i. 0"] h3
  have b: "determine_interaction_style (mira\<lparr>alignment := ''Neutral''\<rparr>) ''greeting'' None = Inl IndexError"
    by blast
  from a b h1 h2 h3 show ?thesis by blast
qed

lemma generate_dialogue_engine:
  "fst (snd (generate_dialogue e npc_name ctx history player_choice r)) = e"
  by (simp add: generate_dialogue_def Let_def case_prod_beta split: option.split sum.split)

lemma generate_response_options_engine:
  "fst (snd (generate_response_options e npc_name ctx player_statement n r)) = e"
  by (simp add: generate_response_options_def Let_def case_prod_beta
      split: option.split sum.split prod.split)

lemma perform_query_engine:
  "fst (snd (perform (Generate_dialogue npc_name ctx history player_choice) (e, r))) = e"
  "fst (snd (perform (Generate_response_options npc_name ctx player_statement n) (e, r))) = e"
proof -
  show "fst (snd (perform (Generate_dialogue npc_name ctx history player_choice) (e, r))) = e"
    using generate_dialogue_engine [of e npc_name ctx history player_choice r]
    by (auto split: prod.split sum.split)
  show "fst (snd (perform (Generate_response_options npc_name ctx player_statement n) (e, r))) = e"
    using generate_response_options_engine [of e npc_name ctx player_statement n r]
    by (auto split: prod.split sum.split)
qed

lemma perform_all_ledger:
  "relationship_states (fst (perform_all calls (e, r)))
     = relationship_states (update_all (updates_in calls) e)"
proof (induction calls arbitrary: e r)
  case Nil
  show ?case by simp
next
  case (Cons c calls)
  obtain e' r' where s: "snd (perform c (e, r)) = (e', r')"
    by (cases "snd (perform c (e, r))")
  show ?case
  proof (cases c)
    case (Generate_dialogue n ctx h ch)
    have "e' = e"
      using perform_query_engine(1) [of n ctx h ch e r] s by (simp add: Generate_dialogue)
    then show ?thesis using Cons.IH [of e r'] s by (simp add: Generate_dialogue)
  next
    case (Update_player_relationship n a ctx)
    then show ?thesis using Cons.IH by simp
  next
    case (Generate_response_options n ctx st k)
    have "e' = e"
      using perform_query_engine(2) [of n ctx st k e r] s by (simp add: Generate_response_options)
    then show ?thesis using Cons.IH [of e r'] s by (simp add: Generate_response_options)
  qed
qed

lemma update_changes_ledger:
  "relationship_states (update_player_relationship n a c e) \<noteq> relationship_states e"
proof
  assume "relationship_states (update_player_relationship n a c e) = relationship_states e"
  then have "interactions_of (update_player_relationship n a c e) n = interactions_of e n"
    by (simp add: interactions_of_def)
  then show False by (simp add: update_interactions)
qed

text \<open>
  Claim C9. The engine that \<open>generate_dialogue\<close> and \<open>generate_response_options\<close> leave is
  the engine they were given, on every path of their bodies, whether they return or
  raise and whether the NPC is known or not; so the relationship ledger after either
  query, called directly or as a call on the engine, is the ledger before it.
  \<open>update_player_relationship\<close> changes the ledger, and the ledger after any sequence of
  calls is the one its update calls alone produce.
\<close>

theorem queries_keep_ledger:
  "fst (snd (generate_dialogue e npc_name ctx history player_choice r)) = e
   \<and> fst (snd (generate_response_options e npc_name ctx player_statement n r)) = e
   \<and> relationship_states (fst (snd (generate_dialogue e npc_name ctx history player_choice r)))
       = relationship_states e
   \<and> relationship_states (fst (snd (generate_response_options e npc_name ctx player_statement n r)))
       = relationship_states e
   \<and> relationship_states (fst (snd (perform (Generate_dialogue npc_name ctx history player_choice) (e, r))))
       = relationship_states e
   \<and> relationship_states
        (fst (snd (perform (Generate_response_options npc_name ctx player_statement n) (e, r))))
       = relationship_states e
   \<and> relationship_states (fst (snd (perform (Update_player_relationship npc_name player_action ctx) (e, r))))
       \<noteq> relationship_states e
   \<and> relationship_states (fst (perform_all calls (e, r)))
       = relationship_states (update_all (updates_in calls) e)"
  by (simp add: generate_dialogue_engine generate_response_options_engine perform_query_engine
      update_changes_ledger perform_all_ledger del: perform.simps(1,3))

theorem queries_keep_ledger_witness:
  "relationship_states
     (fst (snd (generate_response_options hostile ''Drifter'' ''quest'' ''Hello'' 3 (constant_source 0))))
   = relationship_states hostile
   \<and> relationship_states
     (fst (snd (generate_dialogue hostile ''Drifter'' ''quest'' None None (constant_source 0))))
   = relationship_states hostile
   \<and> relationship_states
     (fst (perform_all
        [Generate_dialogue ''Mira Lumina'' ''greeting'' None None,
         Update_player_relationship ''Mira Lumina'' ''I will help and protect you'' ''quest'',
         Generate_response_options ''Mira Lumina'' ''quest'' ''Hello'' 3]
        (init [mira], constant_source 0)))
   = relationship_states
       (update_player_relationship ''Mira Lumina'' ''I will help and protect you'' ''quest'' (init [mira]))"
  using queries_keep_ledger
      [of hostile "''Drifter''" "''quest''" None None "constant_source 0" "''Hello''" 3]
    queries_keep_ledger
      [of "init [mira]" _ _ _ _ "constant_source 0" _ _ _
        "[Generate_dialogue ''Mira Lumina'' ''greeting'' None None,
          Update_player_relationship ''Mira Lumina'' ''I will help and protect you'' ''quest'',
          Generate_response_options ''Mira Lumina'' ''quest'' ''Hello'' 3]"]
  by simp

section \<open>Properties of the response options\<close>

lemma random_sample_length:
  "k \<le> length xs \<Longrightarrow> length (fst (random_sample xs k r)) = k"
proof (induction k arbitrary: xs r)
  case 0
  show ?case by simp
next
  case (Suc k)
  let ?i = "fst (draw r) mod length xs"
  from Suc.prems have i: "?i < length xs" by (intro mod_less_divisor) auto
  have "k \<le> length (take ?i xs @ drop (Suc ?i) xs)"
    using Suc.prems i by simp
  from Suc.IH [OF this, of "snd (draw r)"] show ?case
    by (simp add: Let_def case_prod_beta)
qed

lemma random_sample_mset:
  "k \<le> length xs \<Longrightarrow> mset (fst (random_sample xs k r)) \<subseteq># mset xs"
proof (induction k arbitrary: xs r)
  case 0
  show ?case by simp
next
  case (Suc k)
  let ?i = "fst (draw r) mod length xs"
  let ?rest = "take ?i xs @ drop (Suc ?i) xs"
  from Suc.prems have i: "?i < length xs" by (intro mod_less_divisor) auto
  have "k \<le> length ?rest"
    using Suc.prems i by simp
  from Suc.IH [OF this, of "snd (draw r)"]
  have sub: "mset (fst (random_sample ?rest k (snd (draw r)))) \<subseteq># mset ?rest" .
  have "xs = take ?i xs @ xs ! ?i # drop (Suc ?i) xs"
    using i by (rule id_take_nth_drop)
  then have "mset xs = add_mset (xs ! ?i) (mset ?rest)"
    by (metis mset.simps(2) mset_append union_mset_add_mset_right)
  with sub show ?case
    by (simp add: Let_def case_prod_beta)
qed

lemma random_choice_member:
  "xs \<noteq> [] \<Longrightarrow> fst (random_choice xs r) \<in> set xs"
  by (simp add: random_choice_def)

lemma fill_options_extends:
  "int (length options) \<le> n \<Longrightarrow>
     \<exists>extra. fst (fill_options options n r) = options @ extra
        \<and> set extra \<subseteq> set filler_sentences \<and> int (length (options @ extra)) = n"
proof (induction options n r rule: fill_options.induct)
  case (1 options n r)
  show ?case
  proof (cases "int (length options) < n")
    case False
    with "1.prems" show ?thesis
      by (simp add: fill_options.simps [of options n r])
  next
    case True
    obtain filler r' where c: "random_choice fillers r = (filler, r')"
      by (cases "random_choice fillers r")
    let ?s = "''Interesting perspective. Let's consider '' @ filler @ ''.''"
    have "fst (random_choice fillers r) \<in> set fillers"
      by (rule random_choice_member) (simp add: fillers_def)
    then have "filler \<in> set fillers"
      by (simp add: c)
    then have s: "?s \<in> set filler_sentences"
      by (simp add: filler_sentences_def)
    have "int (length (options @ [?s])) \<le> n" using True by simp
    from "1.IH" [OF True c [symmetric] refl this]
    obtain extra where e: "fst (fill_options (options @ [?s]) n r') = (options @ [?s]) @ extra"
      "set extra \<subseteq> set filler_sentences" "int (length ((options @ [?s]) @ extra)) = n"
      by blast
    have "fst (fill_options options n r) = options @ (?s # extra)"
      using True e(1) by (simp add: fill_options.simps [of options n r] c)
    moreover have "set (?s # extra) \<subseteq> set filler_sentences" using s e(2) by simp
    moreover have "int (length (options @ (?s # extra))) = n" using e(3) by simp
    ultimately show ?thesis by blast
  qed
qed

lemma generate_cautious_response_ok:
  "split (alignment p) \<noteq> [] \<Longrightarrow> \<exists>c. generate_cautious_response p = Inr c"
  by (simp add: generate_cautious_response_def index_def Let_def)

lemma candidate_options_ok:
  assumes "40 \<le> a \<or> split (alignment p) \<noteq> []"
  shows "\<exists>pool r'. candidate_options p ctx a t r = (Inr pool, r')"
proof (cases "a < 40")
  case True
  with assms obtain c where "generate_cautious_response p = Inr c"
    using generate_cautious_response_ok by fastforce
  then show ?thesis
    using True by (simp add: candidate_options_def Let_def split: prod.split)
next
  case False
  then show ?thesis
    by (simp add: candidate_options_def Let_def split: prod.split)
qed

lemma ledger_defaults:
  "(case relationship_states e n of None \<Rightarrow> (50, 50) | Some r \<Rightarrow> (affinity r, trust r))
     = (affinity_of e n, trust_of e n)"
  by (simp add: affinity_of_def trust_of_def split: option.split)

lemma generate_response_options_found:
  assumes "find (\<lambda>npc. name npc = npc_name) (npc_profiles e) = Some p"
    and "candidate_options p ctx (affinity_of e npc_name) (trust_of e npc_name) r = (Inr pool, r1)"
    and "0 \<le> n"
  shows "fst (generate_response_options e npc_name ctx player_statement n r)
           = Inr (if n < int (length pool) then fst (random_sample pool (nat n) r1)
                  else fst (fill_options pool n r1))"
  using assms
  by (simp add: generate_response_options_def ledger_defaults Let_def case_prod_beta)

text \<open>
  Claim C4, as amended. For an NPC of the profile store whose alignment has at least one
  word, or whose affinity is 40 or more, and a count \<open>n\<close> that is not negative,
  \<open>generate_response_options\<close> returns exactly \<open>n\<close> strings: when the candidate pool has
  more than \<open>n\<close> options they are \<open>n\<close> of the pool's options, none taken twice; otherwise
  they are the pool followed by filler sentences.
\<close>

theorem response_options_count:
  "find (\<lambda>npc. name npc = npc_name) (npc_profiles e) = Some p \<and> 0 \<le> n
     \<and> (40 \<le> affinity_of e npc_name \<or> split (alignment p) \<noteq> []) \<longrightarrow>
   (\<exists>pool r1 options.
       candidate_options p ctx (affinity_of e npc_name) (trust_of e npc_name) r = (Inr pool, r1)
     \<and> fst (generate_response_options e npc_name ctx player_statement n r) = Inr options
     \<and> int (length options) = n
     \<and> (n < int (length pool) \<longrightarrow> mset options \<subseteq># mset pool)
     \<and> (int (length pool) \<le> n \<longrightarrow>
           (\<exists>extra. options = pool @ extra \<and> set extra \<subseteq> set filler_sentences)))"
proof (intro impI, elim conjE)
  assume found: "find (\<lambda>npc. name npc = npc_name) (npc_profiles e) = Some p"
    and n: "0 \<le> n"
    and ok: "40 \<le> affinity_of e npc_name \<or> split (alignment p) \<noteq> []"
  obtain pool r1 where
    c: "candidate_options p ctx (affinity_of e npc_name) (trust_of e npc_name) r = (Inr pool, r1)"
    using candidate_options_ok [OF ok] by blast
  note g = generate_response_options_found [OF found c n, of player_statement]
  show "\<exists>pool r1 options.
       candidate_options p ctx (affinity_of e npc_name) (trust_of e npc_name) r = (Inr pool, r1)
     \<and> fst (generate_response_options e npc_name ctx player_statement n r) = Inr options
     \<and> int (length options) = n
     \<and> (n < int (length pool) \<longrightarrow> mset options \<subseteq># mset pool)
     \<and> (int (length pool) \<le> n \<longrightarrow>
           (\<exists>extra. options = pool @ extra \<and> set extra \<subseteq> set filler_sentences))"
  proof (cases "n < int (length pool)")
    case True
    then have k: "nat n \<le> length pool" by simp
    let ?options = "fst (random_sample pool (nat n) r1)"
    have "fst (generate_response_options e npc_name ctx player_statement n r) = Inr ?options"
      using g True by simp
    moreover have "int (length ?options) = n"
      using random_sample_length [OF k, of r1] n by simp
    moreover have "mset ?options \<subseteq># mset pool"
      using k by (rule random_sample_mset)
    ultimately show ?thesis using c True by auto
  next
    case False
    then have le: "int (length pool) \<le> n" by simp
    obtain extra where e: "fst (fill_options pool n r1) = pool @ extra"
      "set extra \<subseteq> set filler_sentences" "int (length (pool @ extra)) = n"
      using fill_options_extends [OF le, of r1] by blast
    have "fst (generate_response_options e npc_name ctx player_statement n r) = Inr (pool @ extra)"
      using g False e(1) by simp
    then show ?thesis using c False e(2,3) by auto
  qed
qed

lemma hostile_profiles: "npc_profiles hostile = [drifter]"
  by (simp add: hostile_def update_frame init_def)

lemma hostile_score: "analyze_player_action ''attack and steal'' = - 4"
  by code_simp

lemma init_affinity: "affinity_of (init profiles) n = 50"
  by (simp add: affinity_of_def init_def)

lemma hostile_affinity: "affinity_of hostile ''Drifter'' = 38"
  by (simp add: hostile_def update_affinity_of hostile_score init_affinity)

lemma split_empty: "split [] = []"
  by (simp add: split_def)

theorem response_options_count_counterexample:
  "''Drifter'' \<in> name ` set (npc_profiles hostile)
   \<and> fst (generate_response_options hostile ''Drifter'' ''quest'' ''Hello'' 3 (constant_source 0))
       = Inl IndexError"
proof -
  have c: "generate_cautious_response drifter = Inl IndexError"
    by (simp add: generate_cautious_response_def drifter_def split_empty index_def)
  have "fst (candidate_options drifter ''quest'' 38 t r) = Inl IndexError" for t r
    by (simp add: candidate_options_def c)
  then have "fst (generate_response_options hostile ''Drifter'' ''quest'' ''Hello'' 3 (constant_source 0))
       = Inl IndexError"
    using hostile_affinity
    by (simp add: generate_response_options_def hostile_profiles ledger_defaults drifter_def
        case_prod_beta split: sum.split)
  then show ?thesis by (simp add: hostile_profiles drifter_def)
qed

theorem response_options_count_witness:
  "find (\<lambda>npc. name npc = ''Mira Lumina'') (npc_profiles (init [mira])) = Some mira
   \<and> (0 :: int) \<le> 3
   \<and> split (alignment mira) \<noteq> []
   \<and> (\<exists>options. fst (generate_response_options (init [mira]) ''Mira Lumina'' ''quest'' ''Hello'' 3
                         (constant_source 0)) = Inr options
          \<and> int (length options) = 3)"
proof -
  have h1: "find (\<lambda>npc. name npc = ''Mira Lumina'') (npc_profiles (init [mira])) = Some mira"
    by (simp add: init_def mira_def)
  have h3: "split (alignment mira) \<noteq> []"
    by (simp add: mira_def split_neutral_good)
  from response_options_count
    [of "''Mira Lumina''" "init [mira]" mira 3 "''quest''" "constant_source 0" "''Hello''"] h1 h3
  have "\<exists>options. fst (generate_response_options (init [mira]) ''Mira Lumina'' ''quest'' ''Hello'' 3
                         (constant_source 0)) = Inr options
          \<and> int (length options) = 3"
    by auto
  with h1 h3 show ?thesis by simp
qed

section \<open>Properties of the template renderer\<close>

lemma replace_skip:
  "CHR ''{'' \<notin> set a \<Longrightarrow>
     replace (CHR ''{'' # k) new (a @ s) = a @ replace (CHR ''{'' # k) new s"
  by (induction a) auto

lemma fold_replace_skip:
  assumes "CHR ''{'' \<notin> set a" "\<forall>(key, val) \<in> set kvs. \<exists>k. key = CHR ''{'' # k"
  shows "fold (\<lambda>(key, val) filled. replace key val filled) kvs (a @ s)
           = a @ fold (\<lambda>(key, val) filled. replace key val filled) kvs s"
  using assms(2)
proof (induction kvs arbitrary: s)
  case Nil
  show ?case by simp
next
  case (Cons kv kvs)
  obtain key val where kv: "kv = (key, val)" by (cases kv)
  with Cons.prems obtain k where k: "key = CHR ''{'' # k" by auto
  have "replace key val (a @ s) = a @ replace key val s"
    using assms(1) by (simp add: k replace_skip)
  then show ?case using Cons.IH [of "replace key val s"] Cons.prems by (simp add: kv)
qed

lemma template_texts_eq:
  "template_texts =
     [''Greetings, traveler. I am {npc_name}, {npc_title}. {custom_intro}'',
      ''Hello! Great to see you here! I'm {npc_name}. {custom_intro}'',
      ''Hmm... {hesitation} I'm {npc_name}. {custom_intro}'',
      ''Wow! A new face! I'm {npc_name}! {custom_intro}'',
      ''I need your help immediately. {quest_description} Time is running out!'',
      ''I have an... interesting proposal. {quest_description} There's more to this than meets the eye.'',
      ''If you have time, could you help me with something? {quest_description} No rush.'',
      ''I'm looking for someone with your skills. {quest_description} Few could manage this.'',
      ''Excellent choice! {approval_response}'',
      ''{disappointment_response} I expected more from you.'',
      ''Interesting... {surprise_response} I didn't expect that.'',
      ''I understand your decision. {neutral_response}'']"
  by (simp add: template_texts_def prompt_templates_def mood_modifiers_def)

lemma fill_texts_brace_free:
  assumes "CHR ''{'' \<notin> set v1" "CHR ''{'' \<notin> set v2" "CHR ''{'' \<notin> set v3" "CHR ''{'' \<notin> set v4"
    "CHR ''{'' \<notin> set v5" "CHR ''{'' \<notin> set v6" "CHR ''{'' \<notin> set v7" "CHR ''{'' \<notin> set v8"
    "CHR ''{'' \<notin> set v9"
  shows "\<forall>t \<in> set (''Hello, I'm {npc_name}. How can I help?'' # template_texts).
     CHR ''{'' \<notin> set (fold (\<lambda>(key, val) filled. replace key val filled)
     [(''{npc_name}'', v1), (''{npc_title}'', v2), (''{custom_intro}'', v3), (''{hesitation}'', v4),
      (''{quest_description}'', v5), (''{approval_response}'', v6), (''{disappointment_response}'', v7),
      (''{surprise_response}'', v8), (''{neutral_response}'', v9)] t)"
  unfolding template_texts_eq using assms by (simp add: replace_skip del: append_Nil2)

lemma catalog_template:
  assumes "map_of prompt_templates ctx = Some styles" "map_of styles style = Some (Template t)"
  shows "select_template ctx style player_choice = Template t \<and> t \<in> set template_texts"
proof -
  have sel: "select_template ctx style player_choice = Template t"
    using assms by (simp add: select_template_def)
  have "(ctx, styles) \<in> set prompt_templates" using assms(1) by (rule map_of_SomeD)
  moreover have "(style, Template t) \<in> set styles" using assms(2) by (rule map_of_SomeD)
  ultimately have "t \<in> set template_texts"
    unfolding template_texts_def by (force simp: image_iff)
  with sel show ?thesis by simp
qed

lemma select_template_cases:
  assumes "select_template ctx style player_choice = Template t"
  shows "t \<in> set (''Hello, I'm {npc_name}. How can I help?'' # template_texts)"
proof (cases "map_of prompt_templates ctx")
  case None
  with assms show ?thesis by (simp add: select_template_def)
next
  case (Some styles)
  show ?thesis
  proof (cases "map_of styles style")
    case None
    with Some assms show ?thesis by (simp add: select_template_def)
  next
    case (Some entry)
    with \<open>map_of prompt_templates ctx = Some styles\<close> assms have "entry = Template t"
      by (simp add: select_template_def)
    with Some \<open>map_of prompt_templates ctx = Some styles\<close> show ?thesis
      using catalog_template [of ctx styles style t] by simp
  qed
qed

lemma mood_prefix:
  "\<exists>pre. CHR ''{'' \<notin> set pre \<and> apply_mood_modifiers (Template t) mood = Inr (Template (pre @ t))"
proof (cases "map_of mood_modifiers mood")
  case None
  then have "apply_mood_modifiers (Template t) mood = Inr (Template ([] @ t))"
    by (simp add: apply_mood_modifiers_def)
  then show ?thesis by (intro exI [of _ "[]"]) simp
next
  case (Some m)
  then have "(mood, m) \<in> set mood_modifiers" by (rule map_of_SomeD)
  then have "CHR ''{'' \<notin> set (speech_patterns m)"
    by (auto simp: mood_modifiers_def)
  then have "CHR ''{'' \<notin> set (''['' @ speech_patterns m @ ''] '')" by simp
  moreover have "apply_mood_modifiers (Template t) mood
      = Inr (Template ((''['' @ speech_patterns m @ ''] '') @ t))"
    by (simp add: apply_mood_modifiers_def Some)
  ultimately show ?thesis by blast
qed

lemma split_on_chars: "w \<in> set (split_on sep s) \<Longrightarrow> set w \<subseteq> set s"
proof (induction s arbitrary: w)
  case Nil
  then show ?case by simp
next
  case (Cons c cs)
  show ?case
  proof (cases "c = sep")
    case True
    with Cons show ?thesis by auto
  next
    case False
    show ?thesis
    proof (cases "split_on sep cs")
      case Nil
      with Cons.prems False show ?thesis by simp
    next
      case (Cons v vs)
      with Cons.prems False have "w = c # v \<or> w \<in> set vs" by simp
      then show ?thesis
      proof
        assume "w = c # v"
        moreover have "set v \<subseteq> set cs" using Cons.IH [of v] Cons by simp
        ultimately show ?thesis by auto
      next
        assume "w \<in> set vs"
        then have "set w \<subseteq> set cs" using Cons.IH [of w] Cons by simp
        then show ?thesis by auto
      qed
    qed
  qed
qed

lemma split_on_not_empty: "split_on sep s \<noteq> []"
  by (induction s) (auto split: list.split)

lemma strip_chars: "set (strip s) \<subseteq> set s"
proof -
  have "set (strip s) \<subseteq> set (rev (dropWhile is_space s))"
    unfolding strip_def using set_dropWhileD by fastforce
  also have "\<dots> \<subseteq> set s"
    using set_dropWhileD by fastforce
  finally show ?thesis .
qed

lemma intro_snippet_brace_free:
  assumes "CHR ''{'' \<notin> set (backstory p)"
  shows "CHR ''{'' \<notin> set (generate_intro_snippet p)"
proof -
  let ?ss = "split_on CHR ''.'' (backstory p)"
  have hd: "CHR ''{'' \<notin> set (hd ?ss)"
    using split_on_chars [of "hd ?ss" "CHR ''.''" "backstory p"] split_on_not_empty [of "CHR ''.''" "backstory p"] assms
    by auto
  have nth: "CHR ''{'' \<notin> set (strip (?ss ! 1))" if "2 < length ?ss"
  proof -
    have "?ss ! 1 \<in> set ?ss" using that by simp
    then have "set (?ss ! 1) \<subseteq> set (backstory p)" by (rule split_on_chars)
    with strip_chars [of "?ss ! 1"] assms show ?thesis by auto
  qed
  show ?thesis
    using hd nth by (simp add: generate_intro_snippet_def Let_def)
qed

lemma hesitation_brace_free: "CHR ''{'' \<notin> set (fst (random_choice hesitations r))"
proof -
  have "fst (random_choice hesitations r) \<in> set hesitations"
    by (rule random_choice_member) (simp add: hesitations_def)
  then show ?thesis by (auto simp: hesitations_def)
qed

lemma replacements_keys:
  "\<forall>(key, val) \<in> set (replacements p h). \<exists>k. key = CHR ''{'' # k"
  by (simp add: replacements_def)

lemma fill_brace_free:
  assumes "brace_free (name p)" "brace_free (class p)" "brace_free (alignment p)"
    "brace_free (backstory p)" "CHR ''{'' \<notin> set h" "CHR ''{'' \<notin> set pre"
    and t: "t \<in> set (''Hello, I'm {npc_name}. How can I help?'' # template_texts)"
  shows "CHR ''{'' \<notin> set (fold (\<lambda>(key, val) filled. replace key val filled) (replacements p h) (pre @ t))"
proof -
  have i: "CHR ''{'' \<notin> set (''I am '' @ alignment p @ '' and '' @ generate_intro_snippet p)"
    using assms(3,4) intro_snippet_brace_free [of p] by (simp add: brace_free_def)
  have n: "CHR ''{'' \<notin> set (name p)" and c: "CHR ''{'' \<notin> set (class p)"
    using assms(1,2) by (simp_all add: brace_free_def)
  have q: "CHR ''{'' \<notin> set ''[Quest description would be dynamically generated]''"
    "CHR ''{'' \<notin> set ''This shows your character.''"
    "CHR ''{'' \<notin> set ''This wasn't what I expected.''"
    "CHR ''{'' \<notin> set ''You continue to surprise me.''"
    "CHR ''{'' \<notin> set ''Let's see where this leads us.''"
    by simp_all
  note all = fill_texts_brace_free [OF n c i assms(5) q]
  have "CHR ''{'' \<notin> set (fold (\<lambda>(key, val) filled. replace key val filled) (replacements p h) t)"
    unfolding replacements_def using all t by blast
  then show ?thesis
    using fold_replace_skip [OF assms(6) replacements_keys, of p h t] assms(6) by simp
qed

lemma no_placeholder:
  assumes "brace_free line"
  shows "\<forall>k \<in> set placeholders. \<not> sublist k line"
proof
  fix k assume k: "k \<in> set placeholders"
  then have "CHR ''{'' \<in> set k" by (auto simp: placeholders_def)
  then show "\<not> sublist k line"
    using assms set_mono_sublist [of k line] by (auto simp: brace_free_def)
qed

lemma render_brace_free:
  assumes "brace_free (name p)" "brace_free (class p)" "brace_free (alignment p)"
    "brace_free (backstory p)"
    and sel: "select_template ctx style player_choice = Template t"
  shows "\<exists>line. fst (render ctx style mood p player_choice r) = Inr line \<and> brace_free line"
proof -
  have t: "t \<in> set (''Hello, I'm {npc_name}. How can I help?'' # template_texts)"
    using sel by (rule select_template_cases)
  obtain pre where pre: "CHR ''{'' \<notin> set pre"
      "apply_mood_modifiers (Template t) mood = Inr (Template (pre @ t))"
    using mood_prefix by blast
  let ?h = "fst (random_choice hesitations r)"
  have "fst (render ctx style mood p player_choice r)
      = Inr (fold (\<lambda>(key, val) filled. replace key val filled) (replacements p ?h) (pre @ t))"
    by (simp add: render_def sel pre(2) fill_template_def case_prod_beta)
  moreover have "brace_free (fold (\<lambda>(key, val) filled. replace key val filled) (replacements p ?h) (pre @ t))"
    unfolding brace_free_def
    using assms(1-4) hesitation_brace_free pre(1) t by (rule fill_brace_free)
  ultimately show ?thesis by blast
qed

text \<open>
  Claim C8, as amended. For every context and style that the catalog gives a template
  for, every mood, and every profile whose name, class, alignment and backstory contain
  no opening brace, the rendered text is returned and contains no opening brace, hence
  none of the placeholder tokens: every placeholder of a catalog template is
  substituted in the fill.
\<close>

theorem render_leaves_no_placeholder:
  "brace_free (name p) \<and> brace_free (class p) \<and> brace_free (alignment p) \<and> brace_free (backstory p)
     \<and> map_of prompt_templates ctx = Some styles \<and> map_of styles style = Some (Template t) \<longrightarrow>
   (\<exists>line. fst (render ctx style mood p player_choice r) = Inr line
       \<and> brace_free line \<and> (\<forall>k \<in> set placeholders. \<not> sublist k line))"
proof (intro impI, elim conjE)
  assume bf: "brace_free (name p)" "brace_free (class p)" "brace_free (alignment p)"
      "brace_free (backstory p)"
    and c: "map_of prompt_templates ctx = Some styles" "map_of styles style = Some (Template t)"
  have sel: "select_template ctx style player_choice = Template t"
    using catalog_template [OF c] by simp
  obtain line where "fst (render ctx style mood p player_choice r) = Inr line" "brace_free line"
    using render_brace_free [OF bf sel] by blast
  then show "\<exists>line. fst (render ctx style mood p player_choice r) = Inr line
       \<and> brace_free line \<and> (\<forall>k \<in> set placeholders. \<not> sublist k line)"
    using no_placeholder by blast
qed

lemma generate_dialogue_render:
  assumes "find (\<lambda>npc. name npc = npc_name) (npc_profiles e) = Some p"
    and "determine_interaction_style p ctx history = Inr style"
  shows "fst (generate_dialogue e npc_name ctx history player_choice r)
           = fst (render ctx style (fst (determine_mood p history player_choice r)) p player_choice
                    (snd (determine_mood p history player_choice r)))"
  using assms
  by (simp add: generate_dialogue_def render_def Let_def case_prod_beta split: sum.split)

theorem render_leaves_no_placeholder_counterexample:
  "fst (render ''greeting'' ''friendly'' ''happy'' echo None (constant_source 0))
     = Inr ''[expansive and enthusiastic] Hello! Great to see you here! I'm Echo. I am Neutral Good and {npc_name}.''
   \<and> sublist ''{npc_name}''
       ''[expansive and enthusiastic] Hello! Great to see you here! I'm Echo. I am Neutral Good and {npc_name}.''
   \<and> fst (generate_dialogue (init [echo]) ''Echo'' ''greeting'' None None (constant_source 0))
     = Inr ''[questioning and reflective] Hello! Great to see you here! I'm Echo. I am Neutral Good and {npc_name}.''"
proof -
  have sel: "select_template ''greeting'' ''friendly'' None
      = Template ''Hello! Great to see you here! I'm {npc_name}. {custom_intro}''"
    by (simp add: select_template_def prompt_templates_def)
  have happy: "apply_mood_modifiers (Template ''Hello! Great to see you here! I'm {npc_name}. {custom_intro}'') ''happy''
      = Inr (Template ''[expansive and enthusiastic] Hello! Great to see you here! I'm {npc_name}. {custom_intro}'')"
    by (simp add: apply_mood_modifiers_def mood_modifiers_def)
  have curious: "apply_mood_modifiers (Template ''Hello! Great to see you here! I'm {npc_name}. {custom_intro}'') ''curious''
      = Inr (Template ''[questioning and reflective] Hello! Great to see you here! I'm {npc_name}. {custom_intro}'')"
    by (simp add: apply_mood_modifiers_def mood_modifiers_def)
  have snippet: "generate_intro_snippet echo = ''{npc_name}.''"
    by (simp add: generate_intro_snippet_def echo_def)
  have reps: "replacements echo h =
     [(''{npc_name}'', ''Echo''), (''{npc_title}'', ''Star Explorer''),
      (''{custom_intro}'', ''I am Neutral Good and {npc_name}.''), (''{hesitation}'', h),
      (''{quest_description}'', ''[Quest description would be dynamically generated]''),
      (''{approval_response}'', ''This shows your character.''),
      (''{disappointment_response}'', ''This wasn't what I expected.''),
      (''{surprise_response}'', ''You continue to surprise me.''),
      (''{neutral_response}'', ''Let's see where this leads us.'')]" for h
    unfolding replacements_def snippet by (simp add: echo_def)
  have fill: "fst (fill_template (Template (pre @ ''Hello! Great to see you here! I'm {npc_name}. {custom_intro}'')) echo ''greeting'' None r)
      = Inr (pre @ ''Hello! Great to see you here! I'm Echo. I am Neutral Good and {npc_name}.'')"
    if "CHR ''{'' \<notin> set pre" for pre r
  proof -
    have "fold (\<lambda>(key, val) filled. replace key val filled) (replacements echo h)
            (pre @ ''Hello! Great to see you here! I'm {npc_name}. {custom_intro}'')
          = pre @ fold (\<lambda>(key, val) filled. replace key val filled) (replacements echo h)
                    ''Hello! Great to see you here! I'm {npc_name}. {custom_intro}''" for h
      using that replacements_keys by (rule fold_replace_skip)
    moreover have "fold (\<lambda>(key, val) filled. replace key val filled) (replacements echo h)
                    ''Hello! Great to see you here! I'm {npc_name}. {custom_intro}''
          = ''Hello! Great to see you here! I'm Echo. I am Neutral Good and {npc_name}.''" for h
      unfolding reps by simp
    ultimately show ?thesis
      by (simp add: fill_template_def case_prod_beta)
  qed
  have r1: "fst (render ''greeting'' ''friendly'' ''happy'' echo None (constant_source 0))
     = Inr ''[expansive and enthusiastic] Hello! Great to see you here! I'm Echo. I am Neutral Good and {npc_name}.''"
    using fill [of "''[expansive and enthusiastic] ''" "constant_source 0"]
    by (simp add: render_def sel happy)
  have s: "sublist ''{npc_name}''
       ''[expansive and enthusiastic] Hello! Great to see you here! I'm Echo. I am Neutral Good and {npc_name}.''"
    by code_simp
  have found: "find (\<lambda>npc. name npc = ''Echo'') (npc_profiles (init [echo])) = Some echo"
    by (simp add: init_def echo_def)
  have split: "split (alignment echo) = [''Neutral'', ''Good'']"
    by (simp add: echo_def split_neutral_good)
  have style: "determine_interaction_style echo ''greeting'' None = Inr ''friendly''"
    by (simp add: determine_interaction_style_def index_def split)
  have mood: "fst (determine_mood echo None None (constant_source 0)) = ''curious''"
    by (simp add: determine_mood_def echo_def mostly_def random_random_def draw_def
        constant_source_def float_0_4_def)
  have r2: "fst (generate_dialogue (init [echo]) ''Echo'' ''greeting'' None None (constant_source 0))
     = Inr ''[questioning and reflective] Hello! Great to see you here! I'm Echo. I am Neutral Good and {npc_name}.''"
    using fill [of "''[questioning and reflective] ''" "snd (determine_mood echo None None (constant_source 0))"]
    by (simp add: generate_dialogue_render [OF found style] mood render_def sel curious)
  from r1 s r2 show ?thesis by blast
qed

theorem render_leaves_no_placeholder_witness:
  "brace_free (name mira) \<and> brace_free (class mira) \<and> brace_free (alignment mira)
   \<and> brace_free (backstory mira)
   \<and> (\<exists>styles. map_of prompt_templates ''greeting'' = Some styles
         \<and> map_of styles ''cautious'' = Some (Template ''Hmm... {hesitation} I'm {npc_name}. {custom_intro}''))
   \<and> (\<exists>line. fst (render ''greeting'' ''cautious'' ''sad'' mira None (constant_source 1)) = Inr line
         \<and> brace_free line \<and> \<not> sublist ''{hesitation}'' line)"
proof -
  have bf: "brace_free (name mira)" "brace_free (class mira)" "brace_free (alignment mira)"
    "brace_free (backstory mira)"
    by (simp_all add: brace_free_def mira_def)
  obtain styles where st: "map_of prompt_templates ''greeting'' = Some styles"
      "map_of styles ''cautious'' = Some (Template ''Hmm... {hesitation} I'm {npc_name}. {custom_intro}'')"
    by (simp add: prompt_templates_def)
  have k: "''{hesitation}'' \<in> set placeholders" by (simp add: placeholders_def)
  from render_leaves_no_placeholder
    [of mira "''greeting''" styles "''cautious''" "''Hmm... {hesitation} I'm {npc_name}. {custom_intro}''"
      "''sad''" None "constant_source 1"] bf st k
  have "\<exists>line. fst (render ''greeting'' ''cautious'' ''sad'' mira None (constant_source 1)) = Inr line
         \<and> brace_free line \<and> \<not> sublist ''{hesitation}'' line"
    by blast
  with bf st show ?thesis by blast
qed

end
